theory Spec2Isabelle
  imports Main
begin

section \<open>JavaScript values\<close>

text \<open>
  The backend's JSON bodies and the fields of the objects built from them are JavaScript
  values. \<open>JUndefined\<close> is what reading an absent property yields; it never occurs inside
  a parsed JSON body. \<open>JNum n\<close> is the number that the JSON integer literal \<open>n\<close> parses
  to (status codes, sizes, counts); numbers with a fractional part are not represented.
  Strings are character lists, of which the code only ever inspects emptiness and identity.
  A parsed object is its list of key/value pairs, read with \<open>map_of\<close>.
\<close>

datatype jsval =
    JUndefined
  | JNull
  | JBool bool
  | JNum int
  | JStr string
  | JArr "jsval list"
  | JObj "(string \<times> jsval) list"

text \<open>Truthiness, as tested by \<open>||\<close>, \<open>&&\<close> and \<open>if\<close>.\<close>

fun truthy :: "jsval \<Rightarrow> bool" where
  "truthy JUndefined = False"
| "truthy JNull = False"
| "truthy (JBool b) = b"
| "truthy (JNum n) = (n \<noteq> 0)"
| "truthy (JStr s) = (s \<noteq> [])"
| "truthy (JArr xs) = True"
| "truthy (JObj kvs) = True"

text \<open>\<open>a || b\<close> on values.\<close>

definition js_or :: "jsval \<Rightarrow> jsval \<Rightarrow> jsval" where
  "js_or a b = (if truthy a then a else b)"

text \<open>\<open>s || d\<close> on strings: the empty string is falsy.\<close>

definition str_or :: "string \<Rightarrow> string \<Rightarrow> string" where
  "str_or s d = (if s \<noteq> [] then s else d)"

text \<open>
  Exceptions. Only their \<open>message\<close> is ever read (line 145). \<open>TypeError\<close> is what a property
  read on \<open>null\<close> throws and what \<open>fetch\<close> rejects with on a network failure;
  \<open>SyntaxError\<close> is what \<open>response.json()\<close> rejects with on a body that is not JSON;
  \<open>Error\<close> is the one constructed at line 110.
\<close>

datatype js_exn = Error string | TypeError string | SyntaxError string

fun message :: "js_exn \<Rightarrow> string" where
  "message (Error m) = m"
| "message (TypeError m) = m"
| "message (SyntaxError m) = m"

text \<open>
  Reading a property \<open>v.k\<close> of a value that is neither \<open>null\<close> nor \<open>undefined\<close>: the
  stored value for an object that has the key, \<open>undefined\<close> otherwise (none of the keys
  the program reads exists on a number, boolean, string or array).
\<close>

fun read_prop :: "jsval \<Rightarrow> string \<Rightarrow> jsval" where
  "read_prop (JObj kvs) k = (case map_of kvs k of None \<Rightarrow> JUndefined | Some v \<Rightarrow> v)"
| "read_prop v k = JUndefined"

text \<open>The text of the engine's TypeError for a property read on \<open>null\<close>.\<close>

definition null_read_message :: string where
  "null_read_message = ''Cannot read property of null''"

subsection \<open>Number and value to string\<close>

definition digit_char :: "nat \<Rightarrow> char" where
  "digit_char d =
     (if d = 0 then CHR ''0'' else if d = 1 then CHR ''1'' else if d = 2 then CHR ''2''
      else if d = 3 then CHR ''3'' else if d = 4 then CHR ''4'' else if d = 5 then CHR ''5''
      else if d = 6 then CHR ''6'' else if d = 7 then CHR ''7'' else if d = 8 then CHR ''8''
      else CHR ''9'')"

fun string_of_nat :: "nat \<Rightarrow> string" where
  "string_of_nat n =
     (if n < 10 then [digit_char n]
      else string_of_nat (n div 10) @ [digit_char (n mod 10)])"

declare string_of_nat.simps [simp del]

definition string_of_int :: "int \<Rightarrow> string" where
  "string_of_int i =
     (if i < 0 then CHR ''-'' # string_of_nat (nat (- i)) else string_of_nat (nat i))"

fun join_comma :: "string list \<Rightarrow> string" where
  "join_comma [] = []"
| "join_comma [s] = s"
| "join_comma (s # t # ss) = s @ CHR '','' # join_comma (t # ss)"

text \<open>
  The text of a number. An integer of magnitude at most \<open>2^53\<close> is a JavaScript number
  exactly and prints as its decimal digits. For a larger one the number is the nearest
  double and its text (rounded digits, exponent form from \<open>1e21\<close>) is the engine's, which
  the model takes as given: \<open>engine\<close>.
\<close>

definition number_text :: "(int \<Rightarrow> string) \<Rightarrow> int \<Rightarrow> string" where
  "number_text engine n = (if \<bar>n\<bar> \<le> 2 ^ 53 then string_of_int n else engine n)"

text \<open>The text of the engine's TypeError for an object that has no primitive value.\<close>

definition not_primitive_message :: string where
  "not_primitive_message = ''Cannot convert object to primitive value''"

text \<open>
  \<open>ToString\<close>, applied by \<open>new Error(message)\<close> to its argument; \<open>Inl\<close> is the exception
  it throws. An array is its elements joined by commas, with \<open>null\<close> and \<open>undefined\<close>
  elements empty. A parsed object is \<open>[object Object]\<close>, by the inherited \<open>toString\<close>; if
  it has a key \<open>toString\<close> of its own, that value is not callable and the inherited
  \<open>valueOf\<close> (or an own key \<open>valueOf\<close>) yields no primitive, so the conversion throws.
\<close>

fun ToString :: "(int \<Rightarrow> string) \<Rightarrow> jsval \<Rightarrow> js_exn + string"
  and ToString_elements :: "(int \<Rightarrow> string) \<Rightarrow> jsval list \<Rightarrow> js_exn + string list" where
  "ToString engine JUndefined = Inr ''undefined''"
| "ToString engine JNull = Inr ''null''"
| "ToString engine (JBool b) = Inr (if b then ''true'' else ''false'')"
| "ToString engine (JNum n) = Inr (number_text engine n)"
| "ToString engine (JStr s) = Inr s"
| "ToString engine (JArr xs) =
     (case ToString_elements engine xs of Inl e \<Rightarrow> Inl e | Inr ss \<Rightarrow> Inr (join_comma ss))"
| "ToString engine (JObj kvs) =
     (if map_of kvs ''toString'' \<noteq> None then Inl (TypeError not_primitive_message)
      else Inr ''[object Object]'')"
| "ToString_elements engine [] = Inr []"
| "ToString_elements engine (x # xs) =
     (case (if x = JUndefined \<or> x = JNull then Inr [] else ToString engine x) of
        Inl e \<Rightarrow> Inl e
      | Inr s \<Rightarrow>
          (case ToString_elements engine xs of Inl e \<Rightarrow> Inl e | Inr ss \<Rightarrow> Inr (s # ss)))"

section \<open>Data model of \<open>App.js\<close>\<close>

text \<open>The \<open>{ uri, name, type }\<close> argument of \<open>uploadFile\<close>.\<close>

record file_ref =
  uri :: string
  name :: string
  type :: string

text \<open>
  The object literal \<open>mappedChat\<close> (lines 116 to 128). Every key of the literal is a field;
  a field whose source is absent from the payload holds \<open>JUndefined\<close>.
\<close>

record chat =
  chat_id :: string
  timestamp :: string
  filename :: jsval
  fileSize :: jsval
  originalText :: jsval
  correctedText :: jsval
  rawUrduText :: jsval
  firStructuredData :: jsval
  extractionType :: jsval
  correctionsApplied :: jsval
  correctionStats :: jsval

text \<open>The five \<open>useState\<close> cells of the component (lines 22 to 26).\<close>

record app_state =
  uploading :: bool
  progress :: nat
  error :: "string option"
  chat :: "chat option"
  history :: "chat list"

definition initial_state :: app_state where
  "initial_state =
     \<lparr>uploading = False, progress = 0, error = None, chat = None, history = []\<rparr>"

text \<open>
  The component's state together with the device's \<open>AsyncStorage\<close>, a map from keys to the
  JSON value whose text is stored under the key.
\<close>

record world =
  ui :: app_state
  storage :: "string \<rightharpoonup> jsval"

text \<open>The response of \<open>fetch\<close>: \<open>json\<close> is the outcome of \<open>response.json()\<close>.\<close>

record response =
  ok :: bool
  status :: nat
  json :: "js_exn + jsval"

text \<open>
  What the outside world supplies to one call of \<open>uploadFile\<close>: the two clock readings of
  lines 117 and 118, the number of times the 300 ms interval fires before \<open>fetch\<close>
  settles, the outcome of \<open>fetch\<close> (\<open>Inl\<close>: it rejects), and the outcome of
  \<open>AsyncStorage.setItem\<close> (\<open>Some\<close>: it rejects); and the engine's text for the integers
  beyond \<open>2^53\<close> in magnitude.
\<close>

record env =
  now_ms :: nat
  now_iso :: string
  ticks :: nat
  fetch_result :: "js_exn + response"
  setItem_result :: "js_exn option"
  big_number_text :: "int \<Rightarrow> string"

text \<open>
  The effects of the program in the order it performs them: the state setters, the network
  call, the timers and the storage write (with its outcome).
\<close>

datatype action =
    SetUploading bool
  | SetProgress nat
  | SetError "string option"
  | SetChat chat
  | SetHistory "chat list"
  | Fetch file_ref
  | SetInterval
  | ClearInterval
  | SetTimeout
  | SetItem string jsval "js_exn option"

fun apply_action :: "world \<Rightarrow> action \<Rightarrow> world" where
  "apply_action w (SetUploading b) = w\<lparr>ui := (ui w)\<lparr>uploading := b\<rparr>\<rparr>"
| "apply_action w (SetProgress p) = w\<lparr>ui := (ui w)\<lparr>progress := p\<rparr>\<rparr>"
| "apply_action w (SetError e) = w\<lparr>ui := (ui w)\<lparr>error := e\<rparr>\<rparr>"
| "apply_action w (SetChat c) = w\<lparr>ui := (ui w)\<lparr>chat := Some c\<rparr>\<rparr>"
| "apply_action w (SetHistory h) = w\<lparr>ui := (ui w)\<lparr>history := h\<rparr>\<rparr>"
| "apply_action w (Fetch f) = w"
| "apply_action w SetInterval = w"
| "apply_action w ClearInterval = w"
| "apply_action w SetTimeout = w"
| "apply_action w (SetItem k v r) =
     (case r of None \<Rightarrow> w\<lparr>storage := (storage w)(k \<mapsto> v)\<rparr> | Some e \<Rightarrow> w)"

definition run :: "world \<Rightarrow> action list \<Rightarrow> world" where
  "run w acts = foldl apply_action w acts"

text \<open>The network calls of a trace.\<close>

fun fetches :: "action list \<Rightarrow> file_ref list" where
  "fetches [] = []"
| "fetches (Fetch f # as) = f # fetches as"
| "fetches (a # as) = fetches as"

section \<open>The operations of \<open>App.js\<close>\<close>

subsection \<open>\<open>simulateProgress\<close> (lines 28 to 41)\<close>

text \<open>
  The interval callback, fired \<open>n\<close> more times with the counter at \<open>current\<close>: it adds 10,
  and on reaching 90 clears the interval, so that it never fires again.
\<close>

fun interval_fires :: "nat \<Rightarrow> nat \<Rightarrow> action list" where
  "interval_fires 0 current = []"
| "interval_fires (Suc n) current =
     (let c = current + 10 in
      if c \<ge> 90 then [ClearInterval, SetProgress 90]
      else SetProgress c # interval_fires n c)"

definition simulateProgress :: "action list" where
  "simulateProgress = [SetProgress 0, SetInterval]"

subsection \<open>The mapping of the payload (lines 116 to 128)\<close>

text \<open>
  \<open>data\<close> is the parsed body. A body that is the JSON value \<open>null\<close> makes the first
  property read throw; every other body yields the object.
\<close>

definition mappedChat :: "env \<Rightarrow> jsval \<Rightarrow> js_exn + chat" where
  "mappedChat env data =
     (if data = JNull \<or> data = JUndefined then Inl (TypeError null_read_message)
      else Inr
        \<lparr>chat_id = string_of_nat (now_ms env),
         timestamp = now_iso env,
         filename = read_prop data ''filename'',
         fileSize = read_prop data ''file_size'',
         originalText = js_or (read_prop data ''original_text'') (read_prop data ''raw_urdu_text''),
         correctedText = js_or (read_prop data ''corrected_text'') (read_prop data ''corrected_urdu_text''),
         rawUrduText = read_prop data ''raw_urdu_text'',
         firStructuredData = read_prop data ''fir_structured_data'',
         extractionType = js_or (read_prop data ''extraction_type'') (JStr ''text''),
         correctionsApplied = read_prop data ''corrections_applied'',
         correctionStats = js_or (read_prop data ''correction_stats'') (JObj [])\<rparr>)"

subsection \<open>The website client's mapping\<close>

text \<open>
  Modelled from the spec: the website client's \<open>createNewChat\<close>, the second client of the
  parity contract, is not among the sources. This is its mapping as the parity document
  (the website and mobile pipeline summary, section 4) lists it field by field from
  \<open>fileData\<close>, and as the table of section 4.3 of the specification gives it; the
  identifier and the timestamp are the website's own clock readings.
\<close>

definition createNewChat :: "env \<Rightarrow> jsval \<Rightarrow> js_exn + chat" where
  "createNewChat env fileData =
     (if fileData = JNull \<or> fileData = JUndefined then Inl (TypeError null_read_message)
      else Inr
        \<lparr>chat_id = string_of_nat (now_ms env),
         timestamp = now_iso env,
         filename = read_prop fileData ''filename'',
         fileSize = read_prop fileData ''file_size'',
         originalText =
           js_or (read_prop fileData ''original_text'') (read_prop fileData ''raw_urdu_text''),
         correctedText =
           js_or (read_prop fileData ''corrected_text'')
             (read_prop fileData ''corrected_urdu_text''),
         rawUrduText = read_prop fileData ''raw_urdu_text'',
         firStructuredData = read_prop fileData ''fir_structured_data'',
         extractionType = js_or (read_prop fileData ''extraction_type'') (JStr ''text''),
         correctionsApplied = read_prop fileData ''corrections_applied'',
         correctionStats = js_or (read_prop fileData ''correction_stats'') (JObj [])\<rparr>)"

subsection \<open>The error of a response that is not ok (lines 101 to 110)\<close>

text \<open>
  The exception line 110 ends with: the \<open>Error\<close> whose message is the status text or the
  body's truthy \<open>detail\<close> converted to a string, or the exception that conversion throws.
  A body that does not parse is ignored by the inner \<open>catch\<close>.
\<close>

definition failure_error :: "env \<Rightarrow> response \<Rightarrow> js_exn" where
  "failure_error env response =
     (let msg = ''Upload failed with status '' @ string_of_nat (status response) in
      case json response of
        Inl e \<Rightarrow> Error msg
      | Inr errJson \<Rightarrow>
          if truthy errJson \<and> truthy (read_prop errJson ''detail'')
          then (case ToString (big_number_text env) (read_prop errJson ''detail'') of
                  Inl x \<Rightarrow> x
                | Inr t \<Rightarrow> Error t)
          else Error msg)"

subsection \<open>What \<open>JSON.stringify\<close> writes (lines 136 to 139)\<close>

text \<open>
  The JSON value of a chat object: its keys in the order of the literal, those whose value
  is \<open>undefined\<close> left out.
\<close>

definition chat_to_json :: "chat \<Rightarrow> jsval" where
  "chat_to_json c =
     JObj (filter (\<lambda>(k, v). v \<noteq> JUndefined)
       [(''id'', JStr (chat_id c)),
        (''timestamp'', JStr (timestamp c)),
        (''filename'', filename c),
        (''fileSize'', fileSize c),
        (''originalText'', originalText c),
        (''correctedText'', correctedText c),
        (''rawUrduText'', rawUrduText c),
        (''firStructuredData'', firStructuredData c),
        (''extractionType'', extractionType c),
        (''correctionsApplied'', correctionsApplied c),
        (''correctionStats'', correctionStats c)])"

definition history_to_json :: "chat list \<Rightarrow> jsval" where
  "history_to_json h = JArr (map chat_to_json h)"

subsection \<open>\<open>uploadFile\<close> (lines 69 to 152)\<close>

text \<open>
  The \<open>try\<close> block (lines 78 to 142): the effects it performs and the exception it ends
  with, if any. \<open>hist\<close> is the value of the variable \<open>history\<close> in the scope where the
  function was created.
\<close>

definition uploadFile_try :: "chat list \<Rightarrow> env \<Rightarrow> file_ref \<Rightarrow> action list \<times> js_exn option" where
  "uploadFile_try hist env file =
     (let sent = Fetch file # interval_fires (ticks env) 0 in
      case fetch_result env of
        Inl e \<Rightarrow> (sent, Some e)
      | Inr response \<Rightarrow>
          (let got = sent @ [ClearInterval, SetProgress 100] in
           if \<not> ok response then (got, Some (failure_error env response))
           else
             case json response of
               Inl e \<Rightarrow> (got, Some e)
             | Inr data \<Rightarrow>
                 (case mappedChat env data of
                    Inl e \<Rightarrow> (got, Some e)
                  | Inr m \<Rightarrow>
                      (let nextHistory = take 20 (m # hist) in
                       (got @ [SetChat m, SetHistory nextHistory,
                               SetItem ''specter_history'' (history_to_json nextHistory)
                                 (setItem_result env)],
                        None)))))"

text \<open>The whole function: prologue, \<open>try\<close>, \<open>catch\<close> (lines 143 to 145), \<open>finally\<close>.\<close>

definition uploadFile :: "chat list \<Rightarrow> env \<Rightarrow> file_ref \<Rightarrow> action list" where
  "uploadFile hist env file =
     [SetUploading True, SetError None, SetProgress 0] @ simulateProgress @
     (case uploadFile_try hist env file of
        (acts, thrown) \<Rightarrow>
          acts @
          (case thrown of
             None \<Rightarrow> []
           | Some e \<Rightarrow>
               [ClearInterval, SetError (Some (str_or (message e) ''Failed to process file''))]) @
          [SetUploading False, SetTimeout])"

text \<open>The callback of the timeout of line 148, one second later.\<close>

definition progress_reset :: "action list" where
  "progress_reset = [SetProgress 0]"

subsection \<open>\<open>handlePickImage\<close> (lines 43 to 67)\<close>

record asset =
  asset_uri :: string
  fileName :: "string option"
  asset_type :: string
  mimeType :: "string option"

text \<open>What the image picker supplies: the permission answer and the picker's result.\<close>

record picker =
  granted :: bool
  canceled :: bool
  assets :: "asset list option"

definition opt_or :: "string option \<Rightarrow> string \<Rightarrow> string" where
  "opt_or s d = (case s of None \<Rightarrow> d | Some t \<Rightarrow> str_or t d)"

definition handlePickImage ::
  "(env \<Rightarrow> file_ref \<Rightarrow> action list) \<Rightarrow> picker \<Rightarrow> env \<Rightarrow> action list" where
  "handlePickImage uploadFile_cb p env =
     SetError None #
     (if \<not> granted p
      then [SetError (Some ''Permission to access media library is required.'')]
      else
        case assets p of
          None \<Rightarrow> []
        | Some [] \<Rightarrow> []
        | Some (a # rest) \<Rightarrow>
            if canceled p then []
            else uploadFile_cb env
                   \<lparr>uri = asset_uri a,
                    name = opt_or (fileName a) ''fir_image.jpg'',
                    type = (if asset_type a = ''video'' then ''video/*''
                            else opt_or (mimeType a) ''image/jpeg'')\<rparr>)"

text \<open>A press on the history chip of \<open>item\<close> (lines 350 to 353).\<close>

definition historyChip_press :: "chat \<Rightarrow> action list" where
  "historyChip_press item = [SetChat item, SetError None]"

subsection \<open>The component: renders and the memoised callback\<close>

text \<open>
  \<open>useCallback(f, deps)\<close>: the function of the render that last saw different
  dependencies. \<open>memo\<close> is the hook's cell, empty before the first render.
\<close>

definition useCallback :: "'f \<Rightarrow> 'd \<Rightarrow> ('f \<times> 'd) option \<Rightarrow> 'f \<times> ('f \<times> 'd) option" where
  "useCallback f deps memo =
     (case memo of
        None \<Rightarrow> (f, Some (f, deps))
      | Some (g, d) \<Rightarrow> if d = deps then (g, memo) else (f, Some (f, deps)))"

text \<open>
  A mounted component: its world and the cell of the \<open>useCallback\<close> of line 69, whose
  dependency list is the empty list of line 151 (here \<open>()\<close>).
\<close>

record component =
  world :: world
  memo_uploadFile :: "((env \<Rightarrow> file_ref \<Rightarrow> action list) \<times> unit) option"

text \<open>
  A render runs the body of \<open>App\<close>: the function written at line 70 closes over this
  render's \<open>history\<close>, and \<open>useCallback\<close> decides which function the render's \<open>uploadFile\<close>
  names. The result is that function and the component with the hook's cell updated.
\<close>

definition render :: "component \<Rightarrow> (env \<Rightarrow> file_ref \<Rightarrow> action list) \<times> component" where
  "render i =
     (case useCallback (uploadFile (history (ui (world i)))) () (memo_uploadFile i) of
        (cb, m) \<Rightarrow> (cb, i\<lparr>memo_uploadFile := m\<rparr>))"

text \<open>
  Process start: the state cells take their initial values and the component renders for
  the first time. \<open>stored\<close> is what the device's storage holds from earlier runs.
\<close>

definition mount :: "(string \<rightharpoonup> jsval) \<Rightarrow> component" where
  "mount stored =
     snd (render \<lparr>world = \<lparr>ui = initial_state, storage = stored\<rparr>, memo_uploadFile = None\<rparr>)"

text \<open>An event: the handler's effects are applied and the component renders again.\<close>

definition dispatch :: "component \<Rightarrow> action list \<Rightarrow> component" where
  "dispatch i acts = snd (render (i\<lparr>world := run (world i) acts\<rparr>))"

text \<open>One call of the component's \<open>uploadFile\<close>, run to its end.\<close>

definition upload :: "component \<Rightarrow> env \<times> file_ref \<Rightarrow> component" where
  "upload i ef = dispatch i (fst (render i) (fst ef) (snd ef))"

text \<open>A press on a history chip.\<close>

definition select :: "component \<Rightarrow> chat \<Rightarrow> component" where
  "select i item = dispatch i (historyChip_press item)"

subsection \<open>Calls in progress\<close>

text \<open>
  \<open>handlePickImage\<close> and \<open>uploadFile\<close> are asynchronous: each runs up to an \<open>await\<close>,
  and other events of the component are handled before it goes on. The file that
  \<open>handlePickImage\<close> passes to \<open>uploadFile\<close> (lines 57 to 66), if it passes one:
\<close>

definition picked_file :: "picker \<Rightarrow> file_ref option" where
  "picked_file p =
     (case assets p of
        None \<Rightarrow> None
      | Some [] \<Rightarrow> None
      | Some (a # rest) \<Rightarrow>
          if canceled p then None
          else Some \<lparr>uri = asset_uri a,
                     name = opt_or (fileName a) ''fir_image.jpg'',
                     type = (if asset_type a = ''video'' then ''video/*''
                             else opt_or (mimeType a) ''image/jpeg'')\<rparr>)"

text \<open>
  \<open>uploadFile\<close> up to the \<open>await\<close> of line 88 (lines 71 to 88), which reads nothing of
  the scope the function was created in; and the part of a call of \<open>cb\<close> that runs once
  \<open>fetch\<close> has settled. The firings of the call's interval, which set the progress and
  nothing else, are counted with that second part.
\<close>

definition uploadFile_begin :: "file_ref \<Rightarrow> action list" where
  "uploadFile_begin file =
     [SetUploading True, SetError None, SetProgress 0] @ simulateProgress @ [Fetch file]"

definition resume :: "(env \<Rightarrow> file_ref \<Rightarrow> action list) \<Rightarrow> env \<Rightarrow> file_ref \<Rightarrow> action list" where
  "resume cb env file = drop (length (uploadFile_begin file)) (cb env file)"

text \<open>
  A running application: the component, the calls of \<open>handlePickImage\<close> that wait for the
  picker (each with the \<open>uploadFile\<close> of its scope), the calls of \<open>uploadFile\<close> whose
  \<open>fetch\<close> is in flight (each with its file and the function that is running), and the
  number of timeouts of line 148 not yet fired.
\<close>

record session =
  app :: component
  picking :: "(env \<Rightarrow> file_ref \<Rightarrow> action list) list"
  pending :: "(file_ref \<times> (env \<Rightarrow> file_ref \<Rightarrow> action list)) list"
  timeouts :: nat

text \<open>
  The events: a press on the upload button; the picker's answer to the \<open>k\<close>-th waiting call
  of \<open>handlePickImage\<close>; the settling of the \<open>k\<close>-th fetch in flight, with what the outside
  world supplies to that call; a press on the history chip of an item; a timeout firing.
\<close>

datatype event = Press | Answer nat picker | Settle nat env | Select chat | Timeout

definition without :: "nat \<Rightarrow> 'a list \<Rightarrow> 'a list" where
  "without k xs = take k xs @ drop (Suc k) xs"

text \<open>
  One event. The upload button is \<open>disabled\<close> while \<open>uploading\<close> holds (lines 376 to
  383), and a press on a disabled button does nothing; otherwise \<open>handlePickImage\<close>
  clears the error (line 44) and waits. The picker's answer ends the call (lines 47 to 59)
  or starts \<open>uploadFile\<close>, which runs up to its \<open>fetch\<close>. A history chip exists for the
  items of the history only.
\<close>

fun step :: "session \<Rightarrow> event \<Rightarrow> session" where
  "step s Press =
     (if uploading (ui (world (app s))) then s
      else s\<lparr>app := dispatch (app s) [SetError None],
             picking := picking s @ [fst (render (app s))]\<rparr>)"
| "step s (Answer k p) =
     (if k < length (picking s) then
        (if \<not> granted p then
           s\<lparr>app := dispatch (app s)
                     [SetError (Some ''Permission to access media library is required.'')],
             picking := without k (picking s)\<rparr>
         else
           case picked_file p of
             None \<Rightarrow> s\<lparr>picking := without k (picking s)\<rparr>
           | Some f \<Rightarrow>
               s\<lparr>app := dispatch (app s) (uploadFile_begin f),
                 picking := without k (picking s),
                 pending := pending s @ [(f, picking s ! k)]\<rparr>)
      else s)"
| "step s (Settle k env) =
     (if k < length (pending s) then
        s\<lparr>app := dispatch (app s) (resume (snd (pending s ! k)) env (fst (pending s ! k))),
          pending := without k (pending s),
          timeouts := Suc (timeouts s)\<rparr>
      else s)"
| "step s (Select item) =
     (if item \<in> set (history (ui (world (app s)))) then s\<lparr>app := select (app s) item\<rparr>
      else s)"
| "step s Timeout =
     (if 0 < timeouts s then
        s\<lparr>app := dispatch (app s) progress_reset, timeouts := timeouts s - 1\<rparr>
      else s)"

text \<open>Process start, and the states the application can be in.\<close>

definition start :: "(string \<rightharpoonup> jsval) \<Rightarrow> session" where
  "start stored = \<lparr>app = mount stored, picking = [], pending = [], timeouts = 0\<rparr>"

inductive reachable :: "session \<Rightarrow> bool" where
  reachable_start: "reachable (start stored)"
| reachable_step: "reachable s \<Longrightarrow> reachable (step s ev)"

text \<open>
  The states reached when the upload button is never pressed while the picker opened by an
  earlier press is still waiting for its answer.
\<close>

inductive patient :: "session \<Rightarrow> bool" where
  patient_start: "patient (start stored)"
| patient_press: "patient s \<Longrightarrow> picking s = [] \<Longrightarrow> patient (step s Press)"
| patient_answer: "patient s \<Longrightarrow> patient (step s (Answer k p))"
| patient_settle: "patient s \<Longrightarrow> patient (step s (Settle k env))"
| patient_select: "patient s \<Longrightarrow> patient (step s (Select item))"
| patient_timeout: "patient s \<Longrightarrow> patient (step s Timeout)"

section \<open>Outcomes of an upload\<close>

text \<open>
  An upload succeeds when \<open>fetch\<close> resolves with an ok response whose body parses to a
  value other than \<open>null\<close>; in every other case the \<open>try\<close> block throws.
\<close>

definition upload_succeeds :: "env \<Rightarrow> bool" where
  "upload_succeeds env =
     (case fetch_result env of
        Inl e \<Rightarrow> False
      | Inr r \<Rightarrow>
          ok r \<and> (case json r of Inl e \<Rightarrow> False | Inr d \<Rightarrow> d \<noteq> JNull \<and> d \<noteq> JUndefined))"

definition upload_fails :: "env \<Rightarrow> bool" where
  "upload_fails env = (\<not> upload_succeeds env)"

text \<open>The parsed body of a successful upload.\<close>

definition payload_of :: "env \<Rightarrow> jsval" where
  "payload_of env =
     (case fetch_result env of
        Inl e \<Rightarrow> JUndefined
      | Inr r \<Rightarrow> (case json r of Inl e \<Rightarrow> JUndefined | Inr d \<Rightarrow> d))"

text \<open>A chat object with the two client-generated fields blanked.\<close>

definition without_id_timestamp :: "chat \<Rightarrow> chat" where
  "without_id_timestamp c = c\<lparr>chat_id := [], timestamp := []\<rparr>"

section \<open>Concrete inputs\<close>

text \<open>The three letters of the Urdu word of the scenario, as their UTF-8 bytes.\<close>

definition urdu_matn :: string where
  "urdu_matn = [CHR 0xD9, CHR 0x85, CHR 0xD8, CHR 0xAA, CHR 0xD9, CHR 0x86]"

definition payload_a :: jsval where
  "payload_a =
     JObj [(''filename'', JStr ''a.jpg''),
           (''file_size'', JNum 1024),
           (''raw_urdu_text'', JStr urdu_matn),
           (''fir_structured_data'', JObj [(''fir_number'', JStr ''123'')])]"

definition file_a :: file_ref where
  "file_a = \<lparr>uri = ''file:///a.jpg'', name = ''a.jpg'', type = ''image/jpeg''\<rparr>"

text \<open>An environment in which the backend answers 200 with the given body at clock \<open>k\<close>.\<close>

definition env_ok :: "nat \<Rightarrow> jsval \<Rightarrow> env" where
  "env_ok k body =
     \<lparr>now_ms = k, now_iso = ''2024-01-01T00:00:00.000Z'', ticks = 2,
      fetch_result = Inr \<lparr>ok = True, status = 200, json = Inr body\<rparr>,
      setItem_result = None, big_number_text = string_of_int\<rparr>"

text \<open>The object the mapping builds from \<open>payload_a\<close> at clock 1.\<close>

definition chat_a :: chat where
  "chat_a =
     \<lparr>chat_id = ''1'', timestamp = ''2024-01-01T00:00:00.000Z'',
      filename = JStr ''a.jpg'', fileSize = JNum 1024,
      originalText = JStr urdu_matn, correctedText = JUndefined,
      rawUrduText = JStr urdu_matn,
      firStructuredData = JObj [(''fir_number'', JStr ''123'')],
      extractionType = JStr ''text'', correctionsApplied = JUndefined,
      correctionStats = JObj []\<rparr>"

text \<open>An environment in which the backend answers with the given status and body, not ok.\<close>

definition env_rejected :: "nat \<Rightarrow> jsval \<Rightarrow> env" where
  "env_rejected code body =
     \<lparr>now_ms = 2, now_iso = ''2024-01-01T00:00:01.000Z'', ticks = 1,
      fetch_result = Inr \<lparr>ok = False, status = code, json = Inr body\<rparr>,
      setItem_result = None, big_number_text = string_of_int\<rparr>"

text \<open>An environment in which \<open>fetch\<close> rejects with the given message.\<close>

definition env_offline :: "string \<Rightarrow> env" where
  "env_offline m =
     \<lparr>now_ms = 3, now_iso = ''2024-01-01T00:00:02.000Z'', ticks = 12,
      fetch_result = Inl (TypeError m), setItem_result = None,
      big_number_text = string_of_int\<rparr>"

text \<open>An environment in which the backend answers 200 with a body that is not JSON.\<close>

definition env_unparsed :: "string \<Rightarrow> env" where
  "env_unparsed m =
     \<lparr>now_ms = 4, now_iso = ''2024-01-01T00:00:03.000Z'', ticks = 3,
      fetch_result = Inr \<lparr>ok = True, status = 200, json = Inl (SyntaxError m)\<rparr>,
      setItem_result = None, big_number_text = string_of_int\<rparr>"

definition detail_body :: "jsval \<Rightarrow> jsval" where
  "detail_body d = JObj [(''detail'', d)]"

definition world0 :: world where
  "world0 = \<lparr>ui = initial_state, storage = Map.empty\<rparr>"

text \<open>A world in which an upload is in flight and an earlier error is still shown.\<close>

definition world_busy :: world where
  "world_busy =
     \<lparr>ui = \<lparr>uploading = True, progress = 30, error = None, chat = Some chat_a,
             history = [chat_a]\<rparr>,
      storage = Map.empty\<rparr>"

definition world_error :: world where
  "world_error =
     \<lparr>ui = \<lparr>uploading = False, progress = 0, error = Some ''Network request failed'',
             chat = None, history = [chat_a]\<rparr>,
      storage = Map.empty\<rparr>"

text \<open>A device storage that holds a one-entry history from an earlier run.\<close>

definition stored_a :: "string \<rightharpoonup> jsval" where
  "stored_a = [''specter_history'' \<mapsto> history_to_json [chat_a]]"

text \<open>Twenty-five successful uploads, one after another, at clocks 1 to 25.\<close>

definition uploads_25 :: "(env \<times> file_ref) list" where
  "uploads_25 = map (\<lambda>k. (env_ok k payload_a, file_a)) [1..<26]"

text \<open>The effects of the upload of \<open>payload_a\<close> at clock 1, up to the response's arrival.\<close>

definition pre_a :: "action list" where
  "pre_a =
     [SetUploading True, SetError None, SetProgress 0, SetProgress 0, SetInterval,
      Fetch file_a, SetProgress 10, SetProgress 20, ClearInterval, SetProgress 100]"

text \<open>A picker answer with one image asset.\<close>

definition picker_a :: picker where
  "picker_a =
     \<lparr>granted = True, canceled = False,
      assets = Some [\<lparr>asset_uri = ''file:///a.jpg'', fileName = Some ''a.jpg'',
                      asset_type = ''image'', mimeType = Some ''image/jpeg''\<rparr>]\<rparr>"

text \<open>
  Two presses before the first picker has answered, then both answers and the settling of
  the first upload.
\<close>

definition events_overlap :: "event list" where
  "events_overlap = [Press, Press, Answer 0 picker_a, Answer 0 picker_a]"

text \<open>A successful upload followed by one that fails for want of a network.\<close>

definition events_failed :: "event list" where
  "events_failed =
     [Press, Answer 0 picker_a, Settle 0 (env_ok 1 payload_a),
      Press, Answer 0 picker_a, Settle 0 (env_offline ''Network request failed'')]"

section \<open>Basic facts about traces\<close>

lemma run_Nil [simp]: "run w [] = w" by (simp add: run_def)
lemma run_Cons [simp]: "run w (a # as) = run (apply_action w a) as" by (simp add: run_def)
lemma run_append [simp]: "run w (as @ bs) = run (run w as) bs" by (simp add: run_def)

lemma interval_fires_run:
  "\<exists>p. run w (interval_fires n c) = w\<lparr>ui := (ui w)\<lparr>progress := p\<rparr>\<rparr>"
proof (induction n arbitrary: c w)
  case 0
  have "w = w\<lparr>ui := (ui w)\<lparr>progress := progress (ui w)\<rparr>\<rparr>" by simp
  then show ?case by (metis interval_fires.simps(1) run_Nil)
next
  case (Suc n)
  show ?case
  proof (cases "c + 10 \<ge> 90")
    case True
    then show ?thesis by (auto simp: Let_def)
  next
    case False
    from Suc.IH [of "apply_action w (SetProgress (c + 10))" "c + 10"]
    obtain p where "run (apply_action w (SetProgress (c + 10))) (interval_fires n (c + 10))
        = (apply_action w (SetProgress (c + 10)))\<lparr>ui := (ui (apply_action w (SetProgress (c + 10))))\<lparr>progress := p\<rparr>\<rparr>"
      by blast
    with False show ?thesis by (auto simp: Let_def)
  qed
qed

lemma fetches_append: "fetches (as @ bs) = fetches as @ fetches bs"
  by (induction as rule: fetches.induct) auto

lemma fetches_interval_fires: "fetches (interval_fires n c) = []"
  by (induction n arbitrary: c) (auto simp: Let_def)

lemma mappedChat_Inr:
  "d \<noteq> JNull \<Longrightarrow> d \<noteq> JUndefined \<Longrightarrow> \<exists>m. mappedChat env d = Inr m"
  by (simp add: mappedChat_def)

lemma uploadFile_try_succeeds:
  assumes "upload_succeeds env"
  shows "\<exists>m. mappedChat env (payload_of env) = Inr m \<and>
     uploadFile_try h env f =
       (Fetch f # interval_fires (ticks env) 0 @
          [ClearInterval, SetProgress 100, SetChat m, SetHistory (take 20 (m # h)),
           SetItem ''specter_history'' (history_to_json (take 20 (m # h))) (setItem_result env)],
        None)"
proof -
  from assms obtain r d where r: "fetch_result env = Inr r" "ok r" "json r = Inr d"
      "d \<noteq> JNull" "d \<noteq> JUndefined"
    by (auto simp: upload_succeeds_def split: sum.splits)
  then obtain m where m: "mappedChat env d = Inr m" using mappedChat_Inr by blast
  from r have p: "payload_of env = d" by (simp add: payload_of_def)
  show ?thesis using r m p by (simp add: uploadFile_try_def Let_def)
qed

lemma uploadFile_try_fails:
  assumes "upload_fails env"
  shows "\<exists>e acts. uploadFile_try h env f = (Fetch f # interval_fires (ticks env) 0 @ acts, Some e)
            \<and> (acts = [] \<or> acts = [ClearInterval, SetProgress 100])"
  using assms
  by (auto simp: upload_fails_def upload_succeeds_def uploadFile_try_def Let_def mappedChat_def
           split: sum.splits)

lemma uploadFile_succeeds_ui:
  assumes "upload_succeeds env"
  shows "\<exists>m. mappedChat env (payload_of env) = Inr m \<and>
    ui (run w (uploadFile h env f)) =
      (ui w)\<lparr>uploading := False, progress := 100, error := None, chat := Some m,
             history := take 20 (m # h)\<rparr>"
proof -
  from uploadFile_try_succeeds [OF assms, of h f] obtain m where
    m: "mappedChat env (payload_of env) = Inr m" and
    t: "uploadFile_try h env f =
       (Fetch f # interval_fires (ticks env) 0 @
          [ClearInterval, SetProgress 100, SetChat m, SetHistory (take 20 (m # h)),
           SetItem ''specter_history'' (history_to_json (take 20 (m # h))) (setItem_result env)],
        None)" by blast
  define w1 where "w1 = run w ([SetUploading True, SetError None, SetProgress 0] @ simulateProgress @ [Fetch f])"
  obtain p where p: "run w1 (interval_fires (ticks env) 0) = w1\<lparr>ui := (ui w1)\<lparr>progress := p\<rparr>\<rparr>"
    using interval_fires_run by blast
  have "ui (run w (uploadFile h env f)) =
      (ui w)\<lparr>uploading := False, progress := 100, error := None, chat := Some m,
             history := take 20 (m # h)\<rparr>"
    using p unfolding w1_def
    by (simp add: uploadFile_def t simulateProgress_def split: option.splits)
  with m show ?thesis by blast
qed

lemma uploadFile_succeeds_storage:
  assumes "upload_succeeds env"
  shows "\<exists>m. mappedChat env (payload_of env) = Inr m \<and>
    storage (run w (uploadFile h env f)) =
      (case setItem_result env of
         None \<Rightarrow> (storage w)(''specter_history'' \<mapsto> history_to_json (take 20 (m # h)))
       | Some e \<Rightarrow> storage w)"
proof -
  from uploadFile_try_succeeds [OF assms, of h f] obtain m where
    m: "mappedChat env (payload_of env) = Inr m" and
    t: "uploadFile_try h env f =
       (Fetch f # interval_fires (ticks env) 0 @
          [ClearInterval, SetProgress 100, SetChat m, SetHistory (take 20 (m # h)),
           SetItem ''specter_history'' (history_to_json (take 20 (m # h))) (setItem_result env)],
        None)" by blast
  define w1 where "w1 = run w ([SetUploading True, SetError None, SetProgress 0] @ simulateProgress @ [Fetch f])"
  obtain p where p: "run w1 (interval_fires (ticks env) 0) = w1\<lparr>ui := (ui w1)\<lparr>progress := p\<rparr>\<rparr>"
    using interval_fires_run by blast
  have "storage (run w (uploadFile h env f)) =
      (case setItem_result env of
         None \<Rightarrow> (storage w)(''specter_history'' \<mapsto> history_to_json (take 20 (m # h)))
       | Some e \<Rightarrow> storage w)"
    using p unfolding w1_def
    by (simp add: uploadFile_def t simulateProgress_def split: option.splits)
  with m show ?thesis by blast
qed

text \<open>The world a failing upload leaves, and the exception it ended with.\<close>

lemma uploadFile_fails_world:
  assumes "upload_fails env"
  shows "\<exists>e acts p. uploadFile_try h env f = (Fetch f # interval_fires (ticks env) 0 @ acts, Some e) \<and>
    run w (uploadFile h env f) =
      w\<lparr>ui := (ui w)\<lparr>uploading := False, progress := p,
                     error := Some (str_or (message e) ''Failed to process file'')\<rparr>\<rparr>"
proof -
  from uploadFile_try_fails [OF assms, of h f] obtain e acts where
    t: "uploadFile_try h env f = (Fetch f # interval_fires (ticks env) 0 @ acts, Some e)"
    and a: "acts = [] \<or> acts = [ClearInterval, SetProgress 100]" by blast
  define w1 where "w1 = run w ([SetUploading True, SetError None, SetProgress 0] @ simulateProgress @ [Fetch f])"
  obtain p where p: "run w1 (interval_fires (ticks env) 0) = w1\<lparr>ui := (ui w1)\<lparr>progress := p\<rparr>\<rparr>"
    using interval_fires_run by blast
  from a have "\<exists>q. run w (uploadFile h env f) =
      w\<lparr>ui := (ui w)\<lparr>uploading := False, progress := q,
                     error := Some (str_or (message e) ''Failed to process file'')\<rparr>\<rparr>"
  proof
    assume "acts = []"
    then have "run w (uploadFile h env f) =
      w\<lparr>ui := (ui w)\<lparr>uploading := False, progress := p,
                     error := Some (str_or (message e) ''Failed to process file'')\<rparr>\<rparr>"
      using p unfolding w1_def by (simp add: uploadFile_def t simulateProgress_def)
    then show ?thesis by blast
  next
    assume "acts = [ClearInterval, SetProgress 100]"
    then have "run w (uploadFile h env f) =
      w\<lparr>ui := (ui w)\<lparr>uploading := False, progress := 100,
                     error := Some (str_or (message e) ''Failed to process file'')\<rparr>\<rparr>"
      using p unfolding w1_def by (simp add: uploadFile_def t simulateProgress_def)
    then show ?thesis by blast
  qed
  with t show ?thesis by blast
qed

lemma env_offline_fails: "upload_fails (env_offline m)"
  by (simp add: upload_fails_def upload_succeeds_def env_offline_def)

lemma mappedChat_a: "mappedChat (env_ok 1 payload_a) payload_a = Inr chat_a"
  by (simp add: mappedChat_def env_ok_def payload_a_def chat_a_def js_or_def
        string_of_nat.simps digit_char_def)

lemma js_or_truthy: "truthy b \<Longrightarrow> truthy (js_or a b)"
  by (simp add: js_or_def)

lemma truthy_defined: "truthy v \<Longrightarrow> v \<noteq> JUndefined \<and> v \<noteq> JNull"
  by (cases v) auto

lemma js_or_absent: "js_or JUndefined JUndefined = JUndefined"
  by (simp add: js_or_def)

lemma thrown_network:
  "fetch_result env = Inl e \<Longrightarrow> snd (uploadFile_try h env f) = Some e"
  by (simp add: uploadFile_try_def Let_def)

lemma thrown_rejected:
  "fetch_result env = Inr r \<Longrightarrow> \<not> ok r \<Longrightarrow>
     snd (uploadFile_try h env f) = Some (failure_error env r)"
  by (simp add: uploadFile_try_def Let_def)

lemma thrown_unparsed:
  "fetch_result env = Inr r \<Longrightarrow> ok r \<Longrightarrow> json r = Inl e \<Longrightarrow>
     snd (uploadFile_try h env f) = Some e"
  by (simp add: uploadFile_try_def Let_def)

lemma thrown_null:
  "fetch_result env = Inr r \<Longrightarrow> ok r \<Longrightarrow> json r = Inr d \<Longrightarrow> d = JNull \<or> d = JUndefined \<Longrightarrow>
     snd (uploadFile_try h env f) = Some (TypeError null_read_message)"
  by (auto simp: uploadFile_try_def Let_def mappedChat_def)

lemma fails_network: "fetch_result env = Inl e \<Longrightarrow> upload_fails env"
  by (simp add: upload_fails_def upload_succeeds_def)

lemma fails_rejected: "fetch_result env = Inr r \<Longrightarrow> \<not> ok r \<Longrightarrow> upload_fails env"
  by (simp add: upload_fails_def upload_succeeds_def)

lemma fails_unparsed: "fetch_result env = Inr r \<Longrightarrow> json r = Inl e \<Longrightarrow> upload_fails env"
  by (simp add: upload_fails_def upload_succeeds_def)

lemma fails_null:
  "fetch_result env = Inr r \<Longrightarrow> json r = Inr d \<Longrightarrow> d = JNull \<or> d = JUndefined \<Longrightarrow>
     upload_fails env"
  by (auto simp: upload_fails_def upload_succeeds_def)

lemma upload_fails_cases:
  "upload_fails env \<longleftrightarrow>
     (\<exists>e. fetch_result env = Inl e)
     \<or> (\<exists>r. fetch_result env = Inr r
            \<and> (\<not> ok r \<or> (\<exists>e. json r = Inl e) \<or> json r = Inr JNull \<or> json r = Inr JUndefined))"
  by (auto simp: upload_fails_def upload_succeeds_def split: sum.splits)

lemma uploadFile_fails_error:
  assumes "upload_fails env" and "snd (uploadFile_try h env f) = Some e"
  shows "error (ui (run w (uploadFile h env f))) = Some (str_or (message e) ''Failed to process file'')"
proof -
  from uploadFile_fails_world [OF assms(1), of h f w] obtain e' acts p where
    t: "uploadFile_try h env f = (Fetch f # interval_fires (ticks env) 0 @ acts, Some e')" and
    r: "run w (uploadFile h env f) =
      w\<lparr>ui := (ui w)\<lparr>uploading := False, progress := p,
                     error := Some (str_or (message e') ''Failed to process file'')\<rparr>\<rparr>"
    by blast
  from t assms(2) have "e' = e" by simp
  with r show ?thesis by simp
qed

lemma truthy_read_prop: "truthy (read_prop v k) \<Longrightarrow> truthy v"
  by (cases v) auto

lemma failure_error_text:
  "json r = Inr body \<Longrightarrow> truthy (read_prop body ''detail'') \<Longrightarrow>
   ToString (big_number_text env) (read_prop body ''detail'') = Inr t \<Longrightarrow>
     failure_error env r = Error t"
  by (simp add: failure_error_def truthy_read_prop)

lemma failure_error_throws:
  "json r = Inr body \<Longrightarrow> truthy (read_prop body ''detail'') \<Longrightarrow>
   ToString (big_number_text env) (read_prop body ''detail'') = Inl x \<Longrightarrow>
     failure_error env r = x"
  by (simp add: failure_error_def truthy_read_prop)

lemma failure_error_generic:
  "json r = Inl x \<or> (json r = Inr body \<and> \<not> truthy (read_prop body ''detail'')) \<Longrightarrow>
     failure_error env r = Error (''Upload failed with status '' @ string_of_nat (status r))"
  by (auto simp: failure_error_def)

lemma string_of_nat_422: "string_of_nat 422 = ''422''"
  by (simp add: string_of_nat.simps digit_char_def)

lemma uploadFile_rejected_error:
  assumes "fetch_result env = Inr r" and "\<not> ok r"
  shows "error (ui (run w (uploadFile h env f)))
      = Some (str_or (message (failure_error env r)) ''Failed to process file'')"
  by (rule uploadFile_fails_error [OF fails_rejected [OF assms] thrown_rejected [OF assms]])

lemma uploadFile_network_error:
  assumes "fetch_result env = Inl e"
  shows "error (ui (run w (uploadFile h env f)))
      = Some (str_or (message e) ''Failed to process file'')"
  by (rule uploadFile_fails_error [OF fails_network [OF assms] thrown_network [OF assms]])

lemma uploadFile_unparsed_error:
  assumes "fetch_result env = Inr r" and "ok r" and "json r = Inl e"
  shows "error (ui (run w (uploadFile h env f)))
      = Some (str_or (message e) ''Failed to process file'')"
  by (rule uploadFile_fails_error
        [OF fails_unparsed [OF assms(1) assms(3)] thrown_unparsed [OF assms]])

lemma uploadFile_null_error:
  assumes "fetch_result env = Inr r" and "ok r" and "json r = Inr d"
    and "d = JNull \<or> d = JUndefined"
  shows "error (ui (run w (uploadFile h env f)))
      = Some (str_or null_read_message ''Failed to process file'')"
  using uploadFile_fails_error
        [OF fails_null [OF assms(1) assms(3) assms(4)] thrown_null [OF assms]]
  by simp

lemma env_rejected_error:
  "error (ui (run w (uploadFile h (env_rejected code body) f)))
     = Some (str_or
         (message (failure_error (env_rejected code body)
            \<lparr>ok = False, status = code, json = Inr body\<rparr>))
         ''Failed to process file'')"
  by (rule uploadFile_rejected_error) (simp_all add: env_rejected_def)

lemma env_offline_error:
  "error (ui (run w (uploadFile h (env_offline m) f)))
     = Some (str_or m ''Failed to process file'')"
  using uploadFile_network_error [of "env_offline m" "TypeError m"]
  by (simp add: env_offline_def)

lemma succeeds_setItem [simp]:
  "upload_succeeds (env\<lparr>setItem_result := r\<rparr>) = upload_succeeds env"
  by (simp add: upload_succeeds_def)

lemma payload_of_setItem [simp]: "payload_of (env\<lparr>setItem_result := r\<rparr>) = payload_of env"
  by (simp add: payload_of_def)

lemma mappedChat_setItem [simp]: "mappedChat (env\<lparr>setItem_result := r\<rparr>) d = mappedChat env d"
  by (simp add: mappedChat_def)

lemma env_ok_succeeds: "upload_succeeds (env_ok k payload_a)"
  by (simp add: upload_succeeds_def env_ok_def payload_a_def)

lemma payload_of_env_ok: "payload_of (env_ok k body) = body"
  by (simp add: payload_of_def env_ok_def)

lemma uploadFile_succeeds_trace:
  assumes "upload_succeeds env"
  shows "\<exists>m. mappedChat env (payload_of env) = Inr m \<and>
    uploadFile h env f =
      ([SetUploading True, SetError None, SetProgress 0] @ simulateProgress @
       Fetch f # interval_fires (ticks env) 0 @ [ClearInterval, SetProgress 100]) @
      SetChat m # SetHistory (take 20 (m # h)) #
      [SetItem ''specter_history'' (history_to_json (take 20 (m # h))) (setItem_result env),
       SetUploading False, SetTimeout]"
proof -
  from uploadFile_try_succeeds [OF assms, of h f] obtain m where
    m: "mappedChat env (payload_of env) = Inr m" and
    t: "uploadFile_try h env f =
       (Fetch f # interval_fires (ticks env) 0 @
          [ClearInterval, SetProgress 100, SetChat m, SetHistory (take 20 (m # h)),
           SetItem ''specter_history'' (history_to_json (take 20 (m # h))) (setItem_result env)],
        None)" by blast
  show ?thesis using m by (simp add: uploadFile_def t)
qed

lemma prefix_keeps_history:
  "history (ui (run w (([SetUploading True, SetError None, SetProgress 0] @ simulateProgress @
       Fetch f # interval_fires n 0 @ [ClearInterval, SetProgress 100]) @ [SetChat m])))
     = history (ui w)"
proof -
  define w1 where "w1 = run w ([SetUploading True, SetError None, SetProgress 0] @ simulateProgress @ [Fetch f])"
  obtain p where p: "run w1 (interval_fires n 0) = w1\<lparr>ui := (ui w1)\<lparr>progress := p\<rparr>\<rparr>"
    using interval_fires_run by blast
  show ?thesis using p unfolding w1_def by (simp add: simulateProgress_def)
qed

lemma interval_fires_2: "interval_fires 2 0 = [SetProgress 10, SetProgress 20]"
  by (simp add: numeral_2_eq_2)

lemma uploadFile_a_trace:
  "uploadFile [] (env_ok 1 payload_a) file_a =
     pre_a @ [SetChat chat_a, SetHistory [chat_a],
              SetItem ''specter_history'' (history_to_json [chat_a]) None,
              SetUploading False, SetTimeout]"
proof -
  have t: "ticks (env_ok 1 payload_a) = 2" "setItem_result (env_ok 1 payload_a) = None"
    by (simp_all add: env_ok_def)
  from uploadFile_succeeds_trace [OF env_ok_succeeds, of 1 "[]" file_a]
  show ?thesis
    unfolding payload_of_env_ok mappedChat_a t interval_fires_2
    by (simp add: pre_a_def simulateProgress_def)
qed

lemma render_world: "world (snd (render i)) = world i"
  by (simp add: render_def split: prod.splits)

lemma dispatch_world: "world (dispatch i acts) = run (world i) acts"
  by (simp add: dispatch_def render_world)

lemma mount_eq:
  "mount stored =
     \<lparr>world = \<lparr>ui = initial_state, storage = stored\<rparr>,
      memo_uploadFile = Some (uploadFile [], ())\<rparr>"
  by (simp add: mount_def render_def useCallback_def initial_state_def)

section \<open>The memoised callback\<close>

lemma render_memo:
  "memo_uploadFile i = Some (g, ()) \<Longrightarrow> render i = (g, i)"
  by (simp add: render_def useCallback_def)

lemma dispatch_memo:
  "memo_uploadFile i = Some (g, ()) \<Longrightarrow> dispatch i acts = i\<lparr>world := run (world i) acts\<rparr>"
  by (simp add: dispatch_def render_memo)

lemma upload_memo:
  "memo_uploadFile i = Some (g, ()) \<Longrightarrow>
     upload i (env, f) = i\<lparr>world := run (world i) (g env f)\<rparr>"
  by (simp add: upload_def render_memo dispatch_memo)

lemma upload_keeps_memo:
  "memo_uploadFile i = Some (g, ()) \<Longrightarrow> memo_uploadFile (upload i ef) = Some (g, ())"
  by (cases ef) (simp add: upload_memo)

lemma foldl_upload_keeps_memo:
  "memo_uploadFile i = Some (g, ()) \<Longrightarrow> memo_uploadFile (foldl upload i efs) = Some (g, ())"
  by (induction efs arbitrary: i) (simp_all add: upload_keeps_memo)

lemma mount_memo: "memo_uploadFile (mount stored) = Some (uploadFile [], ())"
  by (simp add: mount_eq)

text \<open>On a mounted component every successful upload leaves a history of one entry.\<close>

lemma upload_succeeds_history:
  assumes "memo_uploadFile i = Some (uploadFile [], ())" and "upload_succeeds env"
  shows "\<exists>m. mappedChat env (payload_of env) = Inr m
     \<and> history (ui (world (upload i (env, f)))) = [m]
     \<and> chat (ui (world (upload i (env, f)))) = Some m"
proof -
  from uploadFile_succeeds_ui [OF assms(2), of "world i" "[]" f] obtain m where
    m: "mappedChat env (payload_of env) = Inr m" and
    u: "ui (run (world i) (uploadFile [] env f)) =
      (ui (world i))\<lparr>uploading := False, progress := 100, error := None, chat := Some m,
             history := take 20 [m]\<rparr>" by blast
  have "history (ui (world (upload i (env, f)))) = [m]
     \<and> chat (ui (world (upload i (env, f)))) = Some m"
    by (simp add: upload_memo [OF assms(1)] u)
  with m show ?thesis by blast
qed

lemma uploads_25_split:
  "uploads_25 = map (\<lambda>k. (env_ok k payload_a, file_a)) [1..<25] @ [(env_ok 25 payload_a, file_a)]"
proof -
  have "[1..<26] = [1..<25] @ [25::nat]" by (simp add: upt_rec [of _ "numeral _"] numeral_eq_Suc)
  then show ?thesis by (simp add: uploads_25_def)
qed

lemma mappedChat_25:
  "mappedChat (env_ok 25 payload_a) payload_a = Inr (chat_a\<lparr>chat_id := ''25''\<rparr>)"
  by (simp add: mappedChat_def env_ok_def payload_a_def chat_a_def js_or_def
        string_of_nat.simps digit_char_def)

lemma fetches_uploadFile: "fetches (uploadFile h env f) = [f]"
  by (auto simp: uploadFile_def uploadFile_try_def simulateProgress_def fetches_append
        fetches_interval_fires Let_def split: sum.splits option.splits)

section \<open>Calls in progress and reachable states\<close>

lemma handlePickImage_phases:
  "handlePickImage cb p env =
     SetError None #
     (if \<not> granted p then [SetError (Some ''Permission to access media library is required.'')]
      else case picked_file p of None \<Rightarrow> [] | Some f \<Rightarrow> cb env f)"
  by (simp add: handlePickImage_def picked_file_def split: option.splits list.splits)

lemma uploadFile_phases:
  "uploadFile h env f = uploadFile_begin f @ resume (uploadFile h) env f"
  by (simp add: resume_def uploadFile_begin_def uploadFile_def uploadFile_try_def
        simulateProgress_def Let_def split: sum.splits)

lemma resume_succeeds:
  assumes "upload_succeeds env"
  shows "\<exists>m. mappedChat env (payload_of env) = Inr m \<and>
    resume (uploadFile h) env f =
      interval_fires (ticks env) 0 @
      [ClearInterval, SetProgress 100, SetChat m, SetHistory (take 20 (m # h)),
       SetItem ''specter_history'' (history_to_json (take 20 (m # h))) (setItem_result env),
       SetUploading False, SetTimeout]"
proof -
  from uploadFile_try_succeeds [OF assms, of h f] obtain m where
    m: "mappedChat env (payload_of env) = Inr m" and
    t: "uploadFile_try h env f =
       (Fetch f # interval_fires (ticks env) 0 @
          [ClearInterval, SetProgress 100, SetChat m, SetHistory (take 20 (m # h)),
           SetItem ''specter_history'' (history_to_json (take 20 (m # h))) (setItem_result env)],
        None)" by blast
  show ?thesis using m
    by (simp add: resume_def uploadFile_begin_def uploadFile_def t simulateProgress_def)
qed

lemma resume_fails:
  assumes "upload_fails env"
  shows "\<exists>e acts. resume (uploadFile h) env f =
      interval_fires (ticks env) 0 @ acts @
      [ClearInterval, SetError (Some (str_or (message e) ''Failed to process file'')),
       SetUploading False, SetTimeout]
    \<and> (acts = [] \<or> acts = [ClearInterval, SetProgress 100])"
proof -
  from uploadFile_try_fails [OF assms, of h f] obtain e acts where
    t: "uploadFile_try h env f = (Fetch f # interval_fires (ticks env) 0 @ acts, Some e)"
    and a: "acts = [] \<or> acts = [ClearInterval, SetProgress 100]" by blast
  have "resume (uploadFile h) env f =
      interval_fires (ticks env) 0 @ acts @
      [ClearInterval, SetError (Some (str_or (message e) ''Failed to process file'')),
       SetUploading False, SetTimeout]"
    by (simp add: resume_def uploadFile_begin_def uploadFile_def t simulateProgress_def)
  with a show ?thesis by blast
qed

lemma resume_fails_world:
  assumes "upload_fails env"
  shows "\<exists>e p. run w (resume (uploadFile h) env f) =
      w\<lparr>ui := (ui w)\<lparr>uploading := False, progress := p, error := e\<rparr>\<rparr>"
proof -
  from resume_fails [OF assms, of h f] obtain e acts where
    r: "resume (uploadFile h) env f =
      interval_fires (ticks env) 0 @ acts @
      [ClearInterval, SetError (Some (str_or (message e) ''Failed to process file'')),
       SetUploading False, SetTimeout]"
    and a: "acts = [] \<or> acts = [ClearInterval, SetProgress 100]" by blast
  obtain p where p: "run w (interval_fires (ticks env) 0) = w\<lparr>ui := (ui w)\<lparr>progress := p\<rparr>\<rparr>"
    using interval_fires_run by blast
  from a show ?thesis
  proof
    assume "acts = []"
    then have "run w (resume (uploadFile h) env f) =
      w\<lparr>ui := (ui w)\<lparr>uploading := False, progress := p,
           error := Some (str_or (message e) ''Failed to process file'')\<rparr>\<rparr>"
      using p by (simp add: r)
    then show ?thesis by blast
  next
    assume "acts = [ClearInterval, SetProgress 100]"
    then have "run w (resume (uploadFile h) env f) =
      w\<lparr>ui := (ui w)\<lparr>uploading := False, progress := 100,
           error := Some (str_or (message e) ''Failed to process file'')\<rparr>\<rparr>"
      using p by (simp add: r)
    then show ?thesis by blast
  qed
qed

lemma resume_succeeds_ui:
  assumes "upload_succeeds env"
  shows "\<exists>m. mappedChat env (payload_of env) = Inr m \<and>
     ui (run w (resume (uploadFile h) env f)) =
      (ui w)\<lparr>uploading := False, progress := 100, chat := Some m, history := take 20 (m # h)\<rparr>"
proof -
  from resume_succeeds [OF assms, of h f] obtain m where
    m: "mappedChat env (payload_of env) = Inr m" and
    r: "resume (uploadFile h) env f =
      interval_fires (ticks env) 0 @
      [ClearInterval, SetProgress 100, SetChat m, SetHistory (take 20 (m # h)),
       SetItem ''specter_history'' (history_to_json (take 20 (m # h))) (setItem_result env),
       SetUploading False, SetTimeout]" by blast
  obtain p where p: "run w (interval_fires (ticks env) 0) = w\<lparr>ui := (ui w)\<lparr>progress := p\<rparr>\<rparr>"
    using interval_fires_run by blast
  have "ui (run w (resume (uploadFile h) env f)) =
      (ui w)\<lparr>uploading := False, progress := 100, chat := Some m, history := take 20 (m # h)\<rparr>"
    using p by (simp add: r split: option.splits)
  with m show ?thesis by blast
qed

lemma resume_uploading:
  "uploading (ui (run w (resume (uploadFile h) env f))) = False"
proof (cases "upload_succeeds env")
  case True
  from resume_succeeds_ui [OF True, of w h f] show ?thesis by auto
next
  case False
  then have "upload_fails env" by (simp add: upload_fails_def)
  from resume_fails_world [OF this, of w h f] show ?thesis by auto
qed

lemma resume_fails_history:
  assumes "upload_fails env"
  shows "history (ui (run w (resume (uploadFile h) env f))) = history (ui w)"
  using resume_fails_world [OF assms, of w h f] by auto

lemma begin_world:
  "run w (uploadFile_begin f) = w\<lparr>ui := (ui w)\<lparr>uploading := True, error := None, progress := 0\<rparr>\<rparr>"
  by (simp add: uploadFile_begin_def simulateProgress_def)

lemma set_without: "set (without k xs) \<subseteq> set xs"
  by (auto simp: without_def dest: in_set_takeD in_set_dropD)

lemma length_without: "k < length xs \<Longrightarrow> length (without k xs) = length xs - 1"
  by (auto simp: without_def)

lemma dispatch_memo_same:
  "memo_uploadFile i = Some (g, ()) \<Longrightarrow> memo_uploadFile (dispatch i acts) = Some (g, ())"
  by (simp add: dispatch_memo)

lemma select_world: "world (select i item) = run (world i) (historyChip_press item)"
  by (simp add: select_def dispatch_world)

lemma select_memo_same:
  "memo_uploadFile i = Some (g, ()) \<Longrightarrow> memo_uploadFile (select i item) = Some (g, ())"
  by (simp add: select_def dispatch_memo)

text \<open>Every function the application holds or runs is the \<open>uploadFile\<close> of the first render.\<close>

lemma reachable_callbacks:
  "reachable s \<Longrightarrow>
     memo_uploadFile (app s) = Some (uploadFile [], ())
     \<and> set (picking s) \<subseteq> {uploadFile []}
     \<and> snd ` set (pending s) \<subseteq> {uploadFile []}"
proof (induction rule: reachable.induct)
  case (reachable_start stored)
  show ?case by (simp add: start_def mount_memo)
next
  case (reachable_step s ev)
  then have m: "memo_uploadFile (app s) = Some (uploadFile [], ())"
    and pk: "set (picking s) \<subseteq> {uploadFile []}"
    and pd: "snd ` set (pending s) \<subseteq> {uploadFile []}" by auto
  have pk': "set (without k (picking s)) \<subseteq> {uploadFile []}" for k
    using set_without [of k "picking s"] pk by blast
  have pd': "snd ` set (without k (pending s)) \<subseteq> {uploadFile []}" for k
    using set_without [of k "pending s"] pd by blast
  show ?case
  proof (cases ev)
    case Press
    then show ?thesis using m pk pd
      by (simp add: dispatch_memo_same render_memo [OF m])
  next
    case (Answer k p)
    have nth: "k < length (picking s) \<Longrightarrow> picking s ! k = uploadFile []"
      using pk nth_mem by fastforce
    show ?thesis unfolding Answer using m pk' pd nth pk
      by (auto simp: dispatch_memo_same split: option.splits)
  next
    case (Settle k env)
    show ?thesis unfolding Settle using m pk pd' pd
      by (auto simp: dispatch_memo_same)
  next
    case (Select item)
    show ?thesis unfolding Select using m pk pd
      by (auto simp: select_memo_same)
  next
    case Timeout
    show ?thesis unfolding Timeout using m pk pd
      by (auto simp: dispatch_memo_same)
  qed
qed

lemma reachable_pending_callback:
  assumes "reachable s" and "k < length (pending s)"
  shows "snd (pending s ! k) = uploadFile []"
proof -
  from assms(2) have "pending s ! k \<in> set (pending s)" by simp
  with reachable_callbacks [OF assms(1)] show ?thesis by blast
qed

text \<open>While the flag is set, some upload is in flight.\<close>

lemma reachable_uploading_pending:
  "reachable s \<Longrightarrow> uploading (ui (world (app s))) \<Longrightarrow> pending s \<noteq> []"
proof (induction rule: reachable.induct)
  case (reachable_start stored)
  then show ?case by (simp add: start_def mount_eq initial_state_def)
next
  case (reachable_step s ev)
  show ?case
  proof (cases ev)
    case Press
    with reachable_step show ?thesis by (auto simp: dispatch_world split: if_splits)
  next
    case (Answer k p)
    with reachable_step show ?thesis
      by (auto simp: dispatch_world split: if_splits option.splits)
  next
    case (Settle k env)
    show ?thesis
    proof (cases "k < length (pending s)")
      case True
      from reachable_pending_callback [OF reachable_step.hyps True]
      have "uploading (ui (world (app (step s ev)))) = False"
        unfolding Settle using True by (simp add: dispatch_world resume_uploading)
      with reachable_step.prems show ?thesis by simp
    next
      case False
      with reachable_step Settle show ?thesis by simp
    qed
  next
    case (Select item)
    with reachable_step show ?thesis
      by (auto simp: select_world historyChip_press_def split: if_splits)
  next
    case Timeout
    with reachable_step show ?thesis
      by (auto simp: dispatch_world progress_reset_def split: if_splits)
  qed
qed

lemma patient_reachable: "patient s \<Longrightarrow> reachable s"
  by (induction rule: patient.induct) (blast intro: reachable.intros)+

text \<open>With patient presses, the flag is set exactly while the one upload is in flight.\<close>

lemma patient_single:
  "patient s \<Longrightarrow>
     length (picking s) + length (pending s) \<le> 1
     \<and> (uploading (ui (world (app s))) \<longleftrightarrow> pending s \<noteq> [])"
proof (induction rule: patient.induct)
  case (patient_start stored)
  show ?case by (simp add: start_def mount_eq initial_state_def)
next
  case (patient_press s)
  then show ?case by (auto simp: dispatch_world)
next
  case (patient_answer s k p)
  show ?case
  proof (cases "k < length (picking s)")
    case True
    from patient_answer.IH have i: "length (picking s) + length (pending s) \<le> 1"
      and iff: "uploading (ui (world (app s))) \<longleftrightarrow> pending s \<noteq> []" by auto
    from True i have l: "length (picking s) = 1" and z: "length (pending s) = 0" by arith+
    from z have e: "pending s = []" by simp
    from iff e have u: "\<not> uploading (ui (world (app s)))" by simp
    from True l have w: "without k (picking s) = []" by (simp add: without_def)
    show ?thesis using True e u w
      by (auto simp: dispatch_world begin_world split: option.splits)
  next
    case False
    with patient_answer.IH show ?thesis by simp
  qed
next
  case (patient_settle s k env)
  show ?case
  proof (cases "k < length (pending s)")
    case True
    from reachable_pending_callback [OF patient_reachable [OF patient_settle.hyps] True]
    have u: "uploading (ui (world (app (step s (Settle k env))))) = False"
      using True by (simp add: dispatch_world resume_uploading)
    from True patient_settle.IH have "length (pending s) = 1" by simp
    with True have "without k (pending s) = []" by (simp add: without_def)
    with u True patient_settle.IH show ?thesis by simp
  next
    case False
    with patient_settle.IH show ?thesis by simp
  qed
next
  case (patient_select s item)
  then show ?case by (auto simp: select_world historyChip_press_def)
next
  case (patient_timeout s)
  then show ?case by (auto simp: dispatch_world progress_reset_def)
qed

lemma reachable_foldl: "reachable s \<Longrightarrow> reachable (foldl step s evs)"
  by (induction evs arbitrary: s) (auto intro: reachable_step)

lemma picked_file_a: "picked_file picker_a = Some file_a"
  by (simp add: picked_file_def picker_a_def file_a_def opt_or_def str_or_def)

lemma granted_a: "granted picker_a"
  by (simp add: picker_a_def)

lemma dispatch_first:
  "memo_uploadFile i = Some (uploadFile [], ()) \<Longrightarrow>
     dispatch i acts = i\<lparr>world := run (world i) acts\<rparr>"
  by (rule dispatch_memo)

lemma render_first:
  "memo_uploadFile i = Some (uploadFile [], ()) \<Longrightarrow> fst (render i) = uploadFile []"
  by (simp add: render_memo)

text \<open>
  A press, the picker's answer and the settling of the fetch, with nothing in between, are
  one run of \<open>handlePickImage\<close> with the first render's \<open>uploadFile\<close>.
\<close>

lemma press_begun:
  assumes "reachable s" and "\<not> uploading (ui (world (app s)))"
    and "picking s = []" and "granted p" and "picked_file p = Some f"
  shows "foldl step s [Press, Answer 0 p] =
     s\<lparr>app := (app s)\<lparr>world := run (world (app s)) (SetError None # uploadFile_begin f)\<rparr>,
       picking := [],
       pending := pending s @ [(f, uploadFile [])]\<rparr>"
proof -
  from reachable_callbacks [OF assms(1)]
  have m: "memo_uploadFile (app s) = Some (uploadFile [], ())" by simp
  show ?thesis using assms(2-5) m
    by (simp add: dispatch_first render_first without_def)
qed

lemma upload_session:
  assumes "reachable s" and "\<not> uploading (ui (world (app s)))"
    and "picking s = []" and "pending s = []" and "granted p" and "picked_file p = Some f"
  shows "foldl step s [Press, Answer 0 p, Settle 0 env] =
     s\<lparr>app := (app s)\<lparr>world := run (world (app s)) (handlePickImage (uploadFile []) p env)\<rparr>,
       picking := [], pending := [], timeouts := Suc (timeouts s)\<rparr>"
proof -
  from reachable_callbacks [OF assms(1)]
  have m: "memo_uploadFile (app s) = Some (uploadFile [], ())" by simp
  let ?s2 = "foldl step s [Press, Answer 0 p]"
  have s2: "?s2 =
     s\<lparr>app := (app s)\<lparr>world := run (world (app s)) (SetError None # uploadFile_begin f)\<rparr>,
       picking := [],
       pending := [(f, uploadFile [])]\<rparr>"
    using press_begun [OF assms(1-3) assms(5-6)] assms(4) by simp
  have m2: "memo_uploadFile (app ?s2) = Some (uploadFile [], ())"
    unfolding s2 using m by simp
  have "foldl step s [Press, Answer 0 p, Settle 0 env] = step ?s2 (Settle 0 env)" by simp
  also have "\<dots> =
     s\<lparr>app := (app s)\<lparr>world := run (world (app s))
              ((SetError None # uploadFile_begin f) @ resume (uploadFile []) env f)\<rparr>,
       picking := [], pending := [], timeouts := Suc (timeouts s)\<rparr>"
    using m by (simp add: s2 dispatch_first without_def del: foldl_Cons)
  also have "(SetError None # uploadFile_begin f) @ resume (uploadFile []) env f
      = handlePickImage (uploadFile []) p env"
    using assms(5-6) uploadFile_phases [of "[]" env f]
    by (simp add: handlePickImage_phases)
  finally show ?thesis .
qed

lemma start_facts:
  "reachable (start stored)" "\<not> uploading (ui (world (app (start stored))))"
  "picking (start stored) = []" "pending (start stored) = []"
  "world (app (start stored)) = \<lparr>ui = initial_state, storage = stored\<rparr>"
  by (rule reachable_start) (simp_all add: start_def mount_eq initial_state_def)

lemma begun_a:
  "foldl step (start Map.empty) [Press, Answer 0 picker_a] =
     (start Map.empty)
       \<lparr>app := (app (start Map.empty))
          \<lparr>world := run (world (app (start Map.empty))) (SetError None # uploadFile_begin file_a)\<rparr>,
        picking := [],
        pending := [(file_a, uploadFile [])]\<rparr>"
  using press_begun [OF start_facts(1) start_facts(2) start_facts(3) granted_a picked_file_a,
      of Map.empty]
  by (simp add: start_facts(4) del: foldl_Cons)

text \<open>No event other than the settling of a successful upload writes the history.\<close>

lemma step_history:
  assumes "reachable s"
    and "history (ui (world (app (step s ev)))) \<noteq> history (ui (world (app s)))"
  shows "\<exists>k env. ev = Settle k env \<and> k < length (pending s) \<and> upload_succeeds env"
proof (cases ev)
  case Press
  with assms(2) show ?thesis by (auto simp: dispatch_world split: if_splits)
next
  case (Answer k p)
  with assms(2) show ?thesis
    by (auto simp: dispatch_world begin_world split: if_splits option.splits)
next
  case (Settle k env)
  show ?thesis
  proof (cases "k < length (pending s)")
    case True
    note cb = reachable_pending_callback [OF assms(1) True]
    have "upload_succeeds env"
    proof (rule ccontr)
      assume "\<not> upload_succeeds env"
      then have "upload_fails env" by (simp add: upload_fails_def)
      from resume_fails_history [OF this, of "world (app s)" "[]" "fst (pending s ! k)"]
      have "history (ui (world (app (step s ev)))) = history (ui (world (app s)))"
        unfolding Settle using True cb by (simp add: dispatch_world)
      with assms(2) show False by simp
    qed
    with True Settle show ?thesis by blast
  next
    case False
    with assms(2) Settle show ?thesis by simp
  qed
next
  case (Select item)
  with assms(2) show ?thesis
    by (auto simp: select_world historyChip_press_def split: if_splits)
next
  case Timeout
  with assms(2) show ?thesis
    by (auto simp: dispatch_world progress_reset_def split: if_splits)
qed

text \<open>The state after a successful upload and a failed one.\<close>

lemma failed_session:
  "reachable (foldl step (start Map.empty) events_failed)
   \<and> history (ui (world (app (foldl step (start Map.empty) events_failed)))) = [chat_a]
   \<and> chat (ui (world (app (foldl step (start Map.empty) events_failed)))) = Some chat_a
   \<and> error (ui (world (app (foldl step (start Map.empty) events_failed))))
       = Some ''Network request failed''"
proof -
  let ?env1 = "env_ok 1 payload_a"
  let ?env2 = "env_offline ''Network request failed''"
  let ?t1 = "[Press, Answer 0 picker_a, Settle 0 ?env1]"
  let ?t2 = "[Press, Answer 0 picker_a, Settle 0 ?env2]"
  define s0 where "s0 = start Map.empty"
  define s1 where "s1 = foldl step s0 ?t1"
  define s2 where "s2 = foldl step s1 ?t2"
  have r0: "reachable s0" unfolding s0_def by (rule start_facts(1))
  have e1: "s1 = s0\<lparr>app := (app s0)\<lparr>world := run (world (app s0))
                (handlePickImage (uploadFile []) picker_a ?env1)\<rparr>,
              picking := [], pending := [], timeouts := Suc (timeouts s0)\<rparr>"
    unfolding s1_def s0_def
    by (rule upload_session [OF start_facts(1) start_facts(2) start_facts(3) start_facts(4)
          granted_a picked_file_a])
  define w0 where "w0 = apply_action (world (app s0)) (SetError None)"
  have h1: "handlePickImage (uploadFile []) picker_a env = SetError None # uploadFile [] env file_a"
    for env
    by (simp add: handlePickImage_phases granted_a picked_file_a)
  from uploadFile_succeeds_ui [OF env_ok_succeeds, of 1 w0 "[]" file_a]
  have u1: "ui (run w0 (uploadFile [] ?env1 file_a)) =
      (ui w0)\<lparr>uploading := False, progress := 100, error := None, chat := Some chat_a,
              history := [chat_a]\<rparr>"
    unfolding payload_of_env_ok mappedChat_a by simp
  have w1: "ui (world (app s1)) =
      (ui w0)\<lparr>uploading := False, progress := 100, error := None, chat := Some chat_a,
              history := [chat_a]\<rparr>"
    unfolding e1 h1 using u1 by (simp add: w0_def)
  have r1: "reachable s1" unfolding s1_def by (rule reachable_foldl [OF r0])
  have c1: "\<not> uploading (ui (world (app s1)))" "picking s1 = []" "pending s1 = []"
    using w1 by (simp_all add: e1)
  have e2: "s2 = s1\<lparr>app := (app s1)\<lparr>world := run (world (app s1))
                (handlePickImage (uploadFile []) picker_a ?env2)\<rparr>,
              picking := [], pending := [], timeouts := Suc (timeouts s1)\<rparr>"
    unfolding s2_def
    by (rule upload_session [OF r1 c1 granted_a picked_file_a])
  define w1' where "w1' = apply_action (world (app s1)) (SetError None)"
  have off: "upload_fails ?env2" by (rule env_offline_fails)
  from uploadFile_fails_world [OF off, where h = "[]" and f = file_a and w = w1']
  obtain e p where f2: "run w1' (uploadFile [] ?env2 file_a) =
      w1'\<lparr>ui := (ui w1')\<lparr>uploading := False, progress := p,
                     error := Some (str_or (message e) ''Failed to process file'')\<rparr>\<rparr>"
    by blast
  have err: "error (ui (run w1' (uploadFile [] ?env2 file_a))) = Some ''Network request failed''"
    by (simp add: env_offline_error str_or_def)
  have w2: "world (app s2) = run w1' (uploadFile [] ?env2 file_a)"
    unfolding e2 h1 by (simp add: w1'_def)
  have hist: "history (ui (world (app s2))) = [chat_a]"
    and ch: "chat (ui (world (app s2))) = Some chat_a"
    unfolding w2 f2 using w1 by (simp_all add: w1'_def)
  have er: "error (ui (world (app s2))) = Some ''Network request failed''"
    unfolding w2 by (rule err)
  have r2: "reachable s2" unfolding s2_def by (rule reachable_foldl [OF r1])
  have "foldl step (start Map.empty) events_failed = s2"
    unfolding s2_def s1_def s0_def events_failed_def by simp
  with r2 hist ch er show ?thesis by simp
qed

section \<open>Failing uploads\<close>

text \<open>
  Claim C10. An upload that fails (\<open>fetch\<close> rejects, the response is not ok, the body is
  not JSON, or the body is \<open>null\<close>) leaves the current result, the history and the storage
  as they were: the world afterwards differs from the world before in the uploading flag,
  the progress value and the error message only.
\<close>

theorem failed_upload_keeps_result:
  assumes "upload_fails env"
  shows "chat (ui (run w (uploadFile h env f))) = chat (ui w)
       \<and> history (ui (run w (uploadFile h env f))) = history (ui w)
       \<and> storage (run w (uploadFile h env f)) = storage w
       \<and> (\<exists>u p e. run w (uploadFile h env f) =
             w\<lparr>ui := (ui w)\<lparr>uploading := u, progress := p, error := e\<rparr>\<rparr>)"
proof -
  from uploadFile_fails_world [OF assms, of h f w] obtain e p where
    r: "run w (uploadFile h env f) =
      w\<lparr>ui := (ui w)\<lparr>uploading := False, progress := p,
                     error := Some (str_or (message e) ''Failed to process file'')\<rparr>\<rparr>"
    by blast
  show ?thesis
  proof (intro conjI)
    show "chat (ui (run w (uploadFile h env f))) = chat (ui w)" by (simp add: r)
    show "history (ui (run w (uploadFile h env f))) = history (ui w)" by (simp add: r)
    show "storage (run w (uploadFile h env f)) = storage w" by (simp add: r)
    show "\<exists>u p e. run w (uploadFile h env f) =
             w\<lparr>ui := (ui w)\<lparr>uploading := u, progress := p, error := e\<rparr>\<rparr>"
      using r by blast
  qed
qed

theorem failed_upload_keeps_result_witness:
  "upload_fails (env_offline ''Network request failed'')
   \<and> chat (ui (run world_busy (uploadFile [] (env_offline ''Network request failed'') file_a)))
       = Some chat_a
   \<and> history (ui (run world_busy (uploadFile [] (env_offline ''Network request failed'') file_a)))
       = [chat_a]"
proof -
  have f: "upload_fails (env_offline ''Network request failed'')" by (rule env_offline_fails)
  from failed_upload_keeps_result [OF f, of world_busy "[]" file_a] f
  show ?thesis by (simp add: world_busy_def)
qed

text \<open>
  Claim C5, as amended. When the upload fails, the error message is chosen so. For a
  response that is not ok whose body parses and has a truthy \<open>detail\<close>: the \<open>detail\<close>
  converted to a string (a non-empty string \<open>detail\<close> itself), or the message of the
  exception the conversion throws. For a response that is not ok whose body does not parse
  or whose \<open>detail\<close> is absent or falsy (the empty string included): \<open>Upload failed with
  status <code>\<close>. When \<open>fetch\<close> rejects: the rejection's message. For an ok response
  whose body does not parse: the parser's message; for an ok response whose body is \<open>null\<close>:
  the message of the exception that the mapping's first property read throws. Wherever the message so chosen is empty,
  \<open>Failed to process file\<close> is shown instead. These are all the failures; in every one the
  error is set, \<open>uploading\<close> is false and the history is unchanged. A 422 response with
  body \<open>{"detail":"Unsupported file type"}\<close> gives the error \<open>Unsupported file type\<close>.
\<close>

theorem upload_error_message:
  "(fetch_result env = Inr r \<and> \<not> ok r \<and> json r = Inr body
      \<and> read_prop body ''detail'' = JStr s \<and> s \<noteq> []
    \<longrightarrow> error (ui (run w (uploadFile h env f))) = Some s)
   \<and> (fetch_result env = Inr r \<and> \<not> ok r \<and> json r = Inr body
      \<and> truthy (read_prop body ''detail'')
      \<and> ToString (big_number_text env) (read_prop body ''detail'') = Inr t
    \<longrightarrow> error (ui (run w (uploadFile h env f)))
          = Some (str_or t ''Failed to process file''))
   \<and> (fetch_result env = Inr r \<and> \<not> ok r \<and> json r = Inr body
      \<and> truthy (read_prop body ''detail'')
      \<and> ToString (big_number_text env) (read_prop body ''detail'') = Inl x
    \<longrightarrow> error (ui (run w (uploadFile h env f)))
          = Some (str_or (message x) ''Failed to process file''))
   \<and> (fetch_result env = Inr r \<and> \<not> ok r
      \<and> (json r = Inl x \<or> (json r = Inr body \<and> \<not> truthy (read_prop body ''detail'')))
    \<longrightarrow> error (ui (run w (uploadFile h env f)))
          = Some (''Upload failed with status '' @ string_of_nat (status r)))
   \<and> (fetch_result env = Inl e
    \<longrightarrow> error (ui (run w (uploadFile h env f)))
          = Some (str_or (message e) ''Failed to process file''))
   \<and> (fetch_result env = Inr r \<and> ok r \<and> json r = Inl e
    \<longrightarrow> error (ui (run w (uploadFile h env f)))
          = Some (str_or (message e) ''Failed to process file''))
   \<and> (fetch_result env = Inr r \<and> ok r \<and> json r = Inr JNull \<and> mappedChat env JNull = Inl y
    \<longrightarrow> error (ui (run w (uploadFile h env f)))
          = Some (str_or (message y) ''Failed to process file''))
   \<and> (upload_fails env \<longleftrightarrow>
        (\<exists>e. fetch_result env = Inl e)
        \<or> (\<exists>r. fetch_result env = Inr r
              \<and> (\<not> ok r \<or> (\<exists>e. json r = Inl e) \<or> json r = Inr JNull
                  \<or> json r = Inr JUndefined)))
   \<and> (upload_fails env
    \<longrightarrow> error (ui (run w (uploadFile h env f))) \<noteq> None
        \<and> uploading (ui (run w (uploadFile h env f))) = False
        \<and> history (ui (run w (uploadFile h env f))) = history (ui w))
   \<and> error (ui (run w (uploadFile h
          (env_rejected 422 (detail_body (JStr ''Unsupported file type''))) f)))
       = Some ''Unsupported file type''
   \<and> uploading (ui (run w (uploadFile h
          (env_rejected 422 (detail_body (JStr ''Unsupported file type''))) f))) = False
   \<and> history (ui (run w (uploadFile h
          (env_rejected 422 (detail_body (JStr ''Unsupported file type''))) f))) = history (ui w)"
proof -
  have c2: "fetch_result env = Inr r \<and> \<not> ok r \<and> json r = Inr body
      \<and> truthy (read_prop body ''detail'')
      \<and> ToString (big_number_text env) (read_prop body ''detail'') = Inr t
    \<longrightarrow> error (ui (run w (uploadFile h env f)))
          = Some (str_or t ''Failed to process file'')"
    using uploadFile_rejected_error [of env r w h f] failure_error_text [of r body env t]
    by auto
  have c1: "fetch_result env = Inr r \<and> \<not> ok r \<and> json r = Inr body
      \<and> read_prop body ''detail'' = JStr s \<and> s \<noteq> []
    \<longrightarrow> error (ui (run w (uploadFile h env f))) = Some s"
    using uploadFile_rejected_error [of env r w h f] failure_error_text [of r body env s]
    by (auto simp: str_or_def)
  have c2b: "fetch_result env = Inr r \<and> \<not> ok r \<and> json r = Inr body
      \<and> truthy (read_prop body ''detail'')
      \<and> ToString (big_number_text env) (read_prop body ''detail'') = Inl x
    \<longrightarrow> error (ui (run w (uploadFile h env f)))
          = Some (str_or (message x) ''Failed to process file'')"
    using uploadFile_rejected_error [of env r w h f] failure_error_throws [of r body env x]
    by auto
  have c3: "fetch_result env = Inr r \<and> \<not> ok r
      \<and> (json r = Inl x \<or> (json r = Inr body \<and> \<not> truthy (read_prop body ''detail'')))
    \<longrightarrow> error (ui (run w (uploadFile h env f)))
          = Some (''Upload failed with status '' @ string_of_nat (status r))"
  proof
    assume a: "fetch_result env = Inr r \<and> \<not> ok r
      \<and> (json r = Inl x \<or> (json r = Inr body \<and> \<not> truthy (read_prop body ''detail'')))"
    then have "failure_error env r
        = Error (''Upload failed with status '' @ string_of_nat (status r))"
      using failure_error_generic [of r x body env] by blast
    with a uploadFile_rejected_error [of env r w h f]
    show "error (ui (run w (uploadFile h env f)))
          = Some (''Upload failed with status '' @ string_of_nat (status r))"
      by (simp add: str_or_def)
  qed
  have c4: "fetch_result env = Inl e
    \<longrightarrow> error (ui (run w (uploadFile h env f)))
          = Some (str_or (message e) ''Failed to process file'')"
    using uploadFile_network_error [of env e w h f] by blast
  have c5: "fetch_result env = Inr r \<and> ok r \<and> json r = Inl e
    \<longrightarrow> error (ui (run w (uploadFile h env f)))
          = Some (str_or (message e) ''Failed to process file'')"
    using uploadFile_unparsed_error [of env r e w h f] by blast
  have c6: "fetch_result env = Inr r \<and> ok r \<and> json r = Inr JNull \<and> mappedChat env JNull = Inl y
    \<longrightarrow> error (ui (run w (uploadFile h env f)))
          = Some (str_or (message y) ''Failed to process file'')"
  proof
    assume a: "fetch_result env = Inr r \<and> ok r \<and> json r = Inr JNull
        \<and> mappedChat env JNull = Inl y"
    then have "message y = null_read_message" by (auto simp: mappedChat_def)
    with a uploadFile_null_error [of env r JNull w h f]
    show "error (ui (run w (uploadFile h env f)))
          = Some (str_or (message y) ''Failed to process file'')"
      by simp
  qed
  have c7: "upload_fails env
    \<longrightarrow> error (ui (run w (uploadFile h env f))) \<noteq> None
        \<and> uploading (ui (run w (uploadFile h env f))) = False
        \<and> history (ui (run w (uploadFile h env f))) = history (ui w)"
  proof
    assume a: "upload_fails env"
    from uploadFile_fails_world [OF a, of h f w] obtain e' p where
      r: "run w (uploadFile h env f) =
        w\<lparr>ui := (ui w)\<lparr>uploading := False, progress := p,
                     error := Some (str_or (message e') ''Failed to process file'')\<rparr>\<rparr>"
      by blast
    show "error (ui (run w (uploadFile h env f))) \<noteq> None
        \<and> uploading (ui (run w (uploadFile h env f))) = False
        \<and> history (ui (run w (uploadFile h env f))) = history (ui w)"
      by (simp add: r)
  qed
  let ?env = "env_rejected 422 (detail_body (JStr ''Unsupported file type''))"
  let ?r = "\<lparr>ok = False, status = 422,
              json = Inr (detail_body (JStr ''Unsupported file type''))\<rparr>"
  have fr: "fetch_result ?env = Inr ?r" "\<not> ok ?r" by (simp_all add: env_rejected_def)
  have fm: "failure_error ?env ?r = Error ''Unsupported file type''"
    by (simp add: failure_error_def detail_body_def)
  have s1: "error (ui (run w (uploadFile h ?env f))) = Some ''Unsupported file type''"
    using uploadFile_rejected_error [OF fr, of w h f] fm by (simp add: str_or_def)
  have ff: "upload_fails ?env" by (rule fails_rejected [OF fr])
  from uploadFile_fails_world [OF ff, of h f w] obtain e' p where
      r: "run w (uploadFile h ?env f) =
        w\<lparr>ui := (ui w)\<lparr>uploading := False, progress := p,
                     error := Some (str_or (message e') ''Failed to process file'')\<rparr>\<rparr>"
    by blast
  have s2: "uploading (ui (run w (uploadFile h ?env f))) = False" by (simp add: r)
  have s3: "history (ui (run w (uploadFile h ?env f))) = history (ui w)" by (simp add: r)
  from c1 c2 c2b c3 c4 c5 c6 upload_fails_cases [of env] c7 s1 s2 s3 show ?thesis by blast
qed

theorem upload_error_message_witness:
  "error (ui (run world_busy (uploadFile []
       (env_rejected 422 (detail_body (JStr ''Unsupported file type''))) file_a)))
     = Some ''Unsupported file type''
   \<and> error (ui (run world_busy (uploadFile [] (env_rejected 422 (detail_body JNull)) file_a)))
     = Some ''Upload failed with status 422''
   \<and> error (ui (run world_busy (uploadFile [] (env_offline ''Network request failed'') file_a)))
     = Some ''Network request failed''
   \<and> error (ui (run world_busy (uploadFile [] (env_unparsed ''Unexpected token'') file_a)))
     = Some ''Unexpected token''
   \<and> upload_fails (env_unparsed ''Unexpected token'')
   \<and> error (ui (run world_busy (uploadFile [] (env_ok 1 JNull) file_a))) = Some null_read_message
   \<and> uploading (ui (run world_busy (uploadFile [] (env_offline ''Network request failed'') file_a)))
     = False
   \<and> history (ui (run world_busy (uploadFile [] (env_offline ''Network request failed'') file_a)))
     = [chat_a]"
proof -
  let ?r1 = "\<lparr>ok = False, status = 422,
               json = Inr (detail_body (JStr ''Unsupported file type''))\<rparr>"
  let ?r2 = "\<lparr>ok = False, status = 422, json = Inr (detail_body JNull)\<rparr>"
  let ?r3 = "\<lparr>ok = True, status = 200, json = Inl (SyntaxError ''Unexpected token'')\<rparr>"
  have a: "error (ui (run world_busy (uploadFile []
       (env_rejected 422 (detail_body (JStr ''Unsupported file type''))) file_a)))
     = Some ''Unsupported file type''"
    using upload_error_message
      [where env = "env_rejected 422 (detail_body (JStr ''Unsupported file type''))"
         and r = ?r1 and body = "detail_body (JStr ''Unsupported file type'')"
         and s = "''Unsupported file type''" and w = world_busy and h = "[]" and f = file_a]
    by (simp add: env_rejected_def detail_body_def)
  have b: "error (ui (run world_busy (uploadFile [] (env_rejected 422 (detail_body JNull)) file_a)))
     = Some ''Upload failed with status 422''"
    using upload_error_message
      [where env = "env_rejected 422 (detail_body JNull)" and r = ?r2
         and body = "detail_body JNull" and w = world_busy and h = "[]" and f = file_a]
    by (simp add: env_rejected_def detail_body_def string_of_nat_422)
  have f: "upload_fails (env_offline ''Network request failed'')" by (rule env_offline_fails)
  have c: "error (ui (run world_busy (uploadFile [] (env_offline ''Network request failed'') file_a)))
       = Some ''Network request failed''
     \<and> uploading (ui (run world_busy (uploadFile [] (env_offline ''Network request failed'') file_a)))
       = False
     \<and> history (ui (run world_busy (uploadFile [] (env_offline ''Network request failed'') file_a)))
       = [chat_a]"
    using f upload_error_message
      [where env = "env_offline ''Network request failed''"
         and e = "TypeError ''Network request failed''"
         and w = world_busy and h = "[]" and f = file_a]
    by (simp add: env_offline_def str_or_def world_busy_def)
  have d: "error (ui (run world_busy (uploadFile [] (env_unparsed ''Unexpected token'') file_a)))
       = Some ''Unexpected token''
     \<and> upload_fails (env_unparsed ''Unexpected token'')"
    using upload_error_message
      [where env = "env_unparsed ''Unexpected token''" and r = ?r3
         and e = "SyntaxError ''Unexpected token''"
         and w = world_busy and h = "[]" and f = file_a]
    by (simp add: env_unparsed_def str_or_def)
  have n: "error (ui (run world_busy (uploadFile [] (env_ok 1 JNull) file_a)))
       = Some null_read_message"
    using upload_error_message
      [where env = "env_ok 1 JNull" and r = "\<lparr>ok = True, status = 200, json = Inr JNull\<rparr>"
         and y = "TypeError null_read_message"
         and w = world_busy and h = "[]" and f = file_a]
    by (simp add: env_ok_def mappedChat_def str_or_def null_read_message_def)
  from a b c d n show ?thesis by blast
qed

text \<open>
  Claim C5 as stated fails where \<open>detail\<close> is present but empty (the status message is
  shown), where \<open>detail\<close> is a list of objects (its string conversion is shown), and where
  the transport error's message is empty (the fixed fallback is shown).
\<close>

theorem upload_error_message_counterexample:
  "read_prop (detail_body (JStr [])) ''detail'' = JStr []
   \<and> error (ui (run world0 (uploadFile [] (env_rejected 422 (detail_body (JStr []))) file_a)))
     = Some ''Upload failed with status 422''
   \<and> error (ui (run world0 (uploadFile []
        (env_rejected 422 (detail_body (JArr [JObj [(''msg'', JStr ''field required'')]])))
        file_a)))
     = Some ''[object Object]''
   \<and> error (ui (run world0 (uploadFile [] (env_offline []) file_a)))
     = Some ''Failed to process file''"
  unfolding env_rejected_error env_offline_error
  by (simp add: detail_body_def failure_error_def str_or_def string_of_nat_422)

section \<open>The mapping of the payload\<close>

text \<open>
  Claim C1, as amended. For every payload other than \<open>null\<close> the object built at lines 116
  to 128 has a value for every key; \<open>extractionType\<close> and \<open>correctionStats\<close> are never
  \<open>undefined\<close> or \<open>null\<close> (they default to \<open>"text"\<close> and \<open>{}\<close>); each other field is the
  payload's source value, with the second source where the first is falsy, and is
  \<open>undefined\<close>, not \<open>null\<close>, when its sources are absent. For the payload of the scenario
  the result has \<open>correctedText\<close> undefined, \<open>extractionType\<close> \<open>"text"\<close> and
  \<open>correctionStats\<close> \<open>{}\<close>.
\<close>

theorem mappedChat_fields:
  "(data \<noteq> JNull \<and> data \<noteq> JUndefined \<longrightarrow>
     (\<exists>c. mappedChat env data = Inr c
        \<and> extractionType c \<noteq> JUndefined \<and> extractionType c \<noteq> JNull
        \<and> correctionStats c \<noteq> JUndefined \<and> correctionStats c \<noteq> JNull
        \<and> extractionType c = js_or (read_prop data ''extraction_type'') (JStr ''text'')
        \<and> correctionStats c = js_or (read_prop data ''correction_stats'') (JObj [])
        \<and> filename c = read_prop data ''filename''
        \<and> fileSize c = read_prop data ''file_size''
        \<and> originalText c =
            js_or (read_prop data ''original_text'') (read_prop data ''raw_urdu_text'')
        \<and> correctedText c =
            js_or (read_prop data ''corrected_text'') (read_prop data ''corrected_urdu_text'')
        \<and> rawUrduText c = read_prop data ''raw_urdu_text''
        \<and> firStructuredData c = read_prop data ''fir_structured_data''
        \<and> correctionsApplied c = read_prop data ''corrections_applied''
        \<and> (read_prop data ''corrected_text'' = JUndefined
             \<and> read_prop data ''corrected_urdu_text'' = JUndefined
             \<longrightarrow> correctedText c = JUndefined)
        \<and> (read_prop data ''original_text'' = JUndefined
             \<and> read_prop data ''raw_urdu_text'' = JUndefined
             \<longrightarrow> originalText c = JUndefined)))
   \<and> mappedChat (env_ok 1 payload_a) payload_a = Inr chat_a
   \<and> correctedText chat_a = JUndefined
   \<and> extractionType chat_a = JStr ''text''
   \<and> correctionStats chat_a = JObj []"
proof -
  let ?c = "\<lparr>chat_id = string_of_nat (now_ms env),
         timestamp = now_iso env,
         filename = read_prop data ''filename'',
         fileSize = read_prop data ''file_size'',
         originalText = js_or (read_prop data ''original_text'') (read_prop data ''raw_urdu_text''),
         correctedText = js_or (read_prop data ''corrected_text'') (read_prop data ''corrected_urdu_text''),
         rawUrduText = read_prop data ''raw_urdu_text'',
         firStructuredData = read_prop data ''fir_structured_data'',
         extractionType = js_or (read_prop data ''extraction_type'') (JStr ''text''),
         correctionsApplied = read_prop data ''corrections_applied'',
         correctionStats = js_or (read_prop data ''correction_stats'') (JObj [])\<rparr>"
  have e: "extractionType ?c \<noteq> JUndefined \<and> extractionType ?c \<noteq> JNull"
    using truthy_defined [OF js_or_truthy, of "JStr ''text''" "read_prop data ''extraction_type''"]
    by simp
  have s: "correctionStats ?c \<noteq> JUndefined \<and> correctionStats ?c \<noteq> JNull"
    using truthy_defined [OF js_or_truthy, of "JObj []" "read_prop data ''correction_stats''"]
    by simp
  have general: "data \<noteq> JNull \<and> data \<noteq> JUndefined \<longrightarrow>
     (\<exists>c. mappedChat env data = Inr c
        \<and> extractionType c \<noteq> JUndefined \<and> extractionType c \<noteq> JNull
        \<and> correctionStats c \<noteq> JUndefined \<and> correctionStats c \<noteq> JNull
        \<and> extractionType c = js_or (read_prop data ''extraction_type'') (JStr ''text'')
        \<and> correctionStats c = js_or (read_prop data ''correction_stats'') (JObj [])
        \<and> filename c = read_prop data ''filename''
        \<and> fileSize c = read_prop data ''file_size''
        \<and> originalText c =
            js_or (read_prop data ''original_text'') (read_prop data ''raw_urdu_text'')
        \<and> correctedText c =
            js_or (read_prop data ''corrected_text'') (read_prop data ''corrected_urdu_text'')
        \<and> rawUrduText c = read_prop data ''raw_urdu_text''
        \<and> firStructuredData c = read_prop data ''fir_structured_data''
        \<and> correctionsApplied c = read_prop data ''corrections_applied''
        \<and> (read_prop data ''corrected_text'' = JUndefined
             \<and> read_prop data ''corrected_urdu_text'' = JUndefined
             \<longrightarrow> correctedText c = JUndefined)
        \<and> (read_prop data ''original_text'' = JUndefined
             \<and> read_prop data ''raw_urdu_text'' = JUndefined
             \<longrightarrow> originalText c = JUndefined))"
  proof
    assume a: "data \<noteq> JNull \<and> data \<noteq> JUndefined"
    then have m: "mappedChat env data = Inr ?c" by (simp add: mappedChat_def)
    show "\<exists>c. mappedChat env data = Inr c
        \<and> extractionType c \<noteq> JUndefined \<and> extractionType c \<noteq> JNull
        \<and> correctionStats c \<noteq> JUndefined \<and> correctionStats c \<noteq> JNull
        \<and> extractionType c = js_or (read_prop data ''extraction_type'') (JStr ''text'')
        \<and> correctionStats c = js_or (read_prop data ''correction_stats'') (JObj [])
        \<and> filename c = read_prop data ''filename''
        \<and> fileSize c = read_prop data ''file_size''
        \<and> originalText c =
            js_or (read_prop data ''original_text'') (read_prop data ''raw_urdu_text'')
        \<and> correctedText c =
            js_or (read_prop data ''corrected_text'') (read_prop data ''corrected_urdu_text'')
        \<and> rawUrduText c = read_prop data ''raw_urdu_text''
        \<and> firStructuredData c = read_prop data ''fir_structured_data''
        \<and> correctionsApplied c = read_prop data ''corrections_applied''
        \<and> (read_prop data ''corrected_text'' = JUndefined
             \<and> read_prop data ''corrected_urdu_text'' = JUndefined
             \<longrightarrow> correctedText c = JUndefined)
        \<and> (read_prop data ''original_text'' = JUndefined
             \<and> read_prop data ''raw_urdu_text'' = JUndefined
             \<longrightarrow> originalText c = JUndefined)"
      apply (rule exI [of _ ?c])
      using m e s apply (simp add: js_or_absent)
      done
  qed
  have scen: "correctedText chat_a = JUndefined \<and> extractionType chat_a = JStr ''text''
      \<and> correctionStats chat_a = JObj []"
    by (simp add: chat_a_def)
  from general mappedChat_a scen show ?thesis by blast
qed

theorem mappedChat_fields_witness:
  "payload_a \<noteq> JNull \<and> payload_a \<noteq> JUndefined
   \<and> (\<exists>c. mappedChat (env_ok 1 payload_a) payload_a = Inr c
         \<and> correctedText c = JUndefined
         \<and> extractionType c = JStr ''text''
         \<and> correctionStats c = JObj []
         \<and> extractionType c \<noteq> JUndefined \<and> correctionStats c \<noteq> JNull)"
proof -
  have p: "payload_a \<noteq> JNull \<and> payload_a \<noteq> JUndefined" by (simp add: payload_a_def)
  have r: "read_prop payload_a ''corrected_text'' = JUndefined
      \<and> read_prop payload_a ''corrected_urdu_text'' = JUndefined
      \<and> read_prop payload_a ''extraction_type'' = JUndefined
      \<and> read_prop payload_a ''correction_stats'' = JUndefined"
    by (simp add: payload_a_def)
  from mappedChat_fields [of payload_a "env_ok 1 payload_a"] p
  obtain c where c: "mappedChat (env_ok 1 payload_a) payload_a = Inr c"
      "extractionType c \<noteq> JUndefined" "correctionStats c \<noteq> JNull"
      "extractionType c = js_or (read_prop payload_a ''extraction_type'') (JStr ''text'')"
      "correctionStats c = js_or (read_prop payload_a ''correction_stats'') (JObj [])"
      "correctedText c =
         js_or (read_prop payload_a ''corrected_text'') (read_prop payload_a ''corrected_urdu_text'')"
    by blast
  from c r have "correctedText c = JUndefined \<and> extractionType c = JStr ''text''
      \<and> correctionStats c = JObj []"
    by (simp add: js_or_def)
  with p c show ?thesis by blast
qed

text \<open>
  Claim C1 as stated fails on the scenario's payload: \<open>correctedText\<close> is \<open>undefined\<close>,
  not \<open>null\<close>, and the key is missing from the JSON that is persisted.
\<close>

theorem mappedChat_scenario_counterexample:
  "map_sum message correctedText (mappedChat (env_ok 1 payload_a) payload_a) = Inr JUndefined
   \<and> map_sum message correctedText (mappedChat (env_ok 1 payload_a) payload_a) \<noteq> Inr JNull
   \<and> read_prop (chat_to_json chat_a) ''correctedText'' = JUndefined"
  unfolding mappedChat_a by (simp add: chat_a_def chat_to_json_def)

text \<open>
  Claim C6. The mapping is a function of the payload, and the two clients agree: two runs
  of the mobile mapping on the same payload, at whatever clock readings, and a run of the
  website's \<open>createNewChat\<close> on that payload, give results that agree in every field
  other than the client-generated \<open>id\<close> and \<open>timestamp\<close>, also as the JSON that is
  persisted (and fail alike on a \<open>null\<close> payload).
\<close>

theorem mappedChat_deterministic:
  "map_sum message without_id_timestamp (mappedChat env1 data)
     = map_sum message without_id_timestamp (mappedChat env2 data)
   \<and> map_sum message without_id_timestamp (mappedChat env1 data)
     = map_sum message without_id_timestamp (createNewChat env2 data)
   \<and> map_sum message chat_to_json (map_sum id without_id_timestamp (mappedChat env1 data))
     = map_sum message chat_to_json (map_sum id without_id_timestamp (createNewChat env2 data))"
  by (simp add: mappedChat_def createNewChat_def without_id_timestamp_def)

theorem mappedChat_deterministic_witness:
  "map_sum message chat_id (mappedChat (env_ok 1 payload_a) payload_a) = Inr ''1''
   \<and> map_sum message chat_id (createNewChat (env_ok 2 payload_a) payload_a) = Inr ''2''
   \<and> map_sum message without_id_timestamp (mappedChat (env_ok 1 payload_a) payload_a)
       = map_sum message without_id_timestamp (createNewChat (env_ok 2 payload_a) payload_a)
   \<and> map_sum message without_id_timestamp (mappedChat (env_ok 1 payload_a) payload_a)
       = map_sum message without_id_timestamp (mappedChat (env_ok 2 payload_a) payload_a)"
proof -
  have a: "map_sum message chat_id (mappedChat (env_ok 1 payload_a) payload_a) = Inr ''1''"
    unfolding mappedChat_a by (simp add: chat_a_def)
  have "string_of_nat 2 = ''2''" by (simp add: string_of_nat.simps digit_char_def)
  then have b: "map_sum message chat_id (createNewChat (env_ok 2 payload_a) payload_a) = Inr ''2''"
    by (simp add: createNewChat_def env_ok_def payload_a_def)
  from a b mappedChat_deterministic [of "env_ok 1 payload_a" payload_a "env_ok 2 payload_a"]
  show ?thesis by blast
qed

section \<open>Successful uploads\<close>

text \<open>
  Claim C7. When the upload succeeds and \<open>AsyncStorage.setItem\<close> rejects, the rejection is
  swallowed (lines 135 to 142): the component's state is the one a successful write would
  have left, the current result is the new object, the history is the one built at line 133,
  no error is set, and the storage keeps its old content.
\<close>

theorem persistence_failure_swallowed:
  assumes "upload_succeeds env"
  shows "ui (run w (uploadFile h (env\<lparr>setItem_result := Some x\<rparr>) f))
           = ui (run w (uploadFile h (env\<lparr>setItem_result := None\<rparr>) f))
       \<and> storage (run w (uploadFile h (env\<lparr>setItem_result := Some x\<rparr>) f)) = storage w
       \<and> (\<exists>m. mappedChat env (payload_of env) = Inr m
             \<and> chat (ui (run w (uploadFile h (env\<lparr>setItem_result := Some x\<rparr>) f))) = Some m
             \<and> history (ui (run w (uploadFile h (env\<lparr>setItem_result := Some x\<rparr>) f)))
                 = take 20 (m # h)
             \<and> error (ui (run w (uploadFile h (env\<lparr>setItem_result := Some x\<rparr>) f))) = None
             \<and> uploading (ui (run w (uploadFile h (env\<lparr>setItem_result := Some x\<rparr>) f)))
                 = False)"
proof -
  let ?bad = "env\<lparr>setItem_result := Some x\<rparr>"
  let ?good = "env\<lparr>setItem_result := None\<rparr>"
  have sb: "upload_succeeds ?bad" and sg: "upload_succeeds ?good" using assms by simp_all
  from uploadFile_succeeds_ui [OF sb, of w h f] obtain m where
    m: "mappedChat env (payload_of env) = Inr m" and
    b: "ui (run w (uploadFile h ?bad f)) =
      (ui w)\<lparr>uploading := False, progress := 100, error := None, chat := Some m,
             history := take 20 (m # h)\<rparr>" by auto
  from uploadFile_succeeds_ui [OF sg, of w h f] m have
    g: "ui (run w (uploadFile h ?good f)) =
      (ui w)\<lparr>uploading := False, progress := 100, error := None, chat := Some m,
             history := take 20 (m # h)\<rparr>" by auto
  from uploadFile_succeeds_storage [OF sb, of w h f] have
    s: "storage (run w (uploadFile h ?bad f)) = storage w" by auto
  have "chat (ui (run w (uploadFile h ?bad f))) = Some m
      \<and> history (ui (run w (uploadFile h ?bad f))) = take 20 (m # h)
      \<and> error (ui (run w (uploadFile h ?bad f))) = None
      \<and> uploading (ui (run w (uploadFile h ?bad f))) = False"
    by (simp add: b)
  with m b g s show ?thesis by auto
qed

theorem persistence_failure_swallowed_witness:
  "upload_succeeds (env_ok 1 payload_a)
   \<and> chat (ui (run world0 (uploadFile []
        ((env_ok 1 payload_a)\<lparr>setItem_result := Some (Error ''disk full'')\<rparr>) file_a)))
       = Some chat_a
   \<and> history (ui (run world0 (uploadFile []
        ((env_ok 1 payload_a)\<lparr>setItem_result := Some (Error ''disk full'')\<rparr>) file_a)))
       = [chat_a]
   \<and> error (ui (run world0 (uploadFile []
        ((env_ok 1 payload_a)\<lparr>setItem_result := Some (Error ''disk full'')\<rparr>) file_a)))
       = None
   \<and> storage (run world0 (uploadFile []
        ((env_ok 1 payload_a)\<lparr>setItem_result := Some (Error ''disk full'')\<rparr>) file_a))
        ''specter_history'' = None"
proof -
  let ?bad = "(env_ok 1 payload_a)\<lparr>setItem_result := Some (Error ''disk full'')\<rparr>"
  have s: "upload_succeeds (env_ok 1 payload_a)" by (rule env_ok_succeeds)
  from persistence_failure_swallowed [OF s, of world0 "[]" "Error ''disk full''" file_a]
  obtain m where m: "mappedChat (env_ok 1 payload_a) (payload_of (env_ok 1 payload_a)) = Inr m"
    and c: "chat (ui (run world0 (uploadFile [] ?bad file_a))) = Some m"
    and h: "history (ui (run world0 (uploadFile [] ?bad file_a))) = take 20 [m]"
    and e: "error (ui (run world0 (uploadFile [] ?bad file_a))) = None"
    and st: "storage (run world0 (uploadFile [] ?bad file_a)) = storage world0"
    by blast
  from m have "m = chat_a" unfolding payload_of_env_ok mappedChat_a by simp
  with c h e have "chat (ui (run world0 (uploadFile [] ?bad file_a))) = Some chat_a
     \<and> history (ui (run world0 (uploadFile [] ?bad file_a))) = [chat_a]
     \<and> error (ui (run world0 (uploadFile [] ?bad file_a))) = None"
    by simp
  moreover have "storage (run world0 (uploadFile [] ?bad file_a)) ''specter_history'' = None"
    unfolding st by (simp add: world0_def)
  ultimately show ?thesis using s by blast
qed

text \<open>
  Claim C8, as amended. On every successful upload the program sets the current result
  (line 130) and then the history (line 134): after the first of the two calls the history
  is still the old one. Once both have been applied, the history is not empty and its head
  is the current result.
\<close>

theorem success_sets_result_then_history:
  assumes "upload_succeeds env"
  shows "\<exists>m pre post. mappedChat env (payload_of env) = Inr m
     \<and> uploadFile h env f = pre @ SetChat m # SetHistory (take 20 (m # h)) # post
     \<and> history (ui (run w (pre @ [SetChat m]))) = history (ui w)
     \<and> chat (ui (run w (uploadFile h env f))) = Some m
     \<and> history (ui (run w (uploadFile h env f))) \<noteq> []
     \<and> hd (history (ui (run w (uploadFile h env f)))) = m"
proof -
  from uploadFile_succeeds_trace [OF assms, of h f] obtain m where
    m: "mappedChat env (payload_of env) = Inr m" and
    t: "uploadFile h env f =
      ([SetUploading True, SetError None, SetProgress 0] @ simulateProgress @
       Fetch f # interval_fires (ticks env) 0 @ [ClearInterval, SetProgress 100]) @
      SetChat m # SetHistory (take 20 (m # h)) #
      [SetItem ''specter_history'' (history_to_json (take 20 (m # h))) (setItem_result env),
       SetUploading False, SetTimeout]" by blast
  from uploadFile_succeeds_ui [OF assms, of w h f] m have
    u: "ui (run w (uploadFile h env f)) =
      (ui w)\<lparr>uploading := False, progress := 100, error := None, chat := Some m,
             history := take 20 (m # h)\<rparr>" by auto
  have c: "chat (ui (run w (uploadFile h env f))) = Some m
     \<and> history (ui (run w (uploadFile h env f))) \<noteq> []
     \<and> hd (history (ui (run w (uploadFile h env f)))) = m"
    by (simp add: u)
  from m t prefix_keeps_history [of w f "ticks env" m] c show ?thesis by blast
qed

theorem success_sets_result_then_history_witness:
  "upload_succeeds (env_ok 1 payload_a)
   \<and> chat (ui (run world_error (uploadFile [] (env_ok 1 payload_a) file_a))) = Some chat_a
   \<and> hd (history (ui (run world_error (uploadFile [] (env_ok 1 payload_a) file_a)))) = chat_a"
proof -
  have s: "upload_succeeds (env_ok 1 payload_a)" by (rule env_ok_succeeds)
  from success_sets_result_then_history [OF s, of "[]" file_a world_error]
  obtain m where m: "mappedChat (env_ok 1 payload_a) (payload_of (env_ok 1 payload_a)) = Inr m"
    and c: "chat (ui (run world_error (uploadFile [] (env_ok 1 payload_a) file_a))) = Some m"
    and h: "hd (history (ui (run world_error (uploadFile [] (env_ok 1 payload_a) file_a)))) = m"
    by blast
  from m have eq: "m = chat_a" unfolding payload_of_env_ok mappedChat_a by simp
  from c h s show ?thesis unfolding eq by blast
qed

text \<open>
  Claim C8 as stated fails: in the upload of \<open>payload_a\<close> from the initial state, the
  current result is already set while the history is still empty.
\<close>

theorem result_set_before_history_counterexample:
  "uploadFile [] (env_ok 1 payload_a) file_a =
     pre_a @ [SetChat chat_a, SetHistory [chat_a],
              SetItem ''specter_history'' (history_to_json [chat_a]) None,
              SetUploading False, SetTimeout]
   \<and> chat (ui (run world0 (pre_a @ [SetChat chat_a]))) = Some chat_a
   \<and> history (ui (run world0 (pre_a @ [SetChat chat_a]))) = []"
proof -
  have "chat (ui (run world0 (pre_a @ [SetChat chat_a]))) = Some chat_a
   \<and> history (ui (run world0 (pre_a @ [SetChat chat_a]))) = []"
    by (simp add: pre_a_def world0_def initial_state_def)
  with uploadFile_a_trace show ?thesis by blast
qed

section \<open>The history\<close>

text \<open>
  Claim C2. After twenty-five successful uploads on a freshly mounted component the history
  holds one entry, the twenty-fifth, not twenty: \<open>uploadFile\<close> is memoised with an empty
  dependency list (line 151), so every call runs the function of the first render, in
  whose scope \<open>history\<close> is the initial \<open>[]\<close> of line 26, and line 133 builds the next
  history from that value.
\<close>

theorem history_after_25_uploads:
  "length uploads_25 = 25
   \<and> history (ui (world (foldl upload (mount Map.empty) uploads_25)))
       = [chat_a\<lparr>chat_id := ''25''\<rparr>]
   \<and> length (history (ui (world (foldl upload (mount Map.empty) uploads_25)))) = 1"
proof -
  let ?i = "foldl upload (mount Map.empty) (map (\<lambda>k. (env_ok k payload_a, file_a)) [1..<25])"
  have memo: "memo_uploadFile ?i = Some (uploadFile [], ())"
    by (rule foldl_upload_keeps_memo [OF mount_memo])
  from upload_succeeds_history [OF memo env_ok_succeeds, of 25 file_a]
  have h: "history (ui (world (upload ?i (env_ok 25 payload_a, file_a))))
      = [chat_a\<lparr>chat_id := ''25''\<rparr>]"
    unfolding payload_of_env_ok mappedChat_25 by simp
  have f: "foldl upload (mount Map.empty) uploads_25 = upload ?i (env_ok 25 payload_a, file_a)"
    unfolding uploads_25_split by simp
  have l: "length uploads_25 = 25" by (simp add: uploads_25_def)
  from h f l show ?thesis by simp
qed

text \<open>
  Claim C3, as amended. At every process start the history is the empty sequence, whatever
  the device's storage holds: the stored record is never read, nothing is restored, no
  error is set and the storage is left as it was.
\<close>

theorem mount_history_empty:
  "history (ui (world (mount stored))) = []
   \<and> chat (ui (world (mount stored))) = None
   \<and> error (ui (world (mount stored))) = None
   \<and> storage (world (mount stored)) = stored"
  by (simp add: mount_eq initial_state_def)

theorem mount_history_empty_witness:
  "history (ui (world (mount stored_a))) = []
   \<and> storage (world (mount stored_a)) ''specter_history'' = Some (history_to_json [chat_a])"
  using mount_history_empty [of stored_a] by (simp add: stored_a_def)

text \<open>
  Claim C3 as stated fails: with a one-entry history persisted by an earlier run, the
  history after the start is empty and is not the persisted sequence.
\<close>

theorem mount_ignores_storage_counterexample:
  "stored_a ''specter_history'' = Some (history_to_json [chat_a])
   \<and> history (ui (world (mount stored_a))) = []
   \<and> history_to_json (history (ui (world (mount stored_a)))) \<noteq> history_to_json [chat_a]"
  by (simp add: mount_eq initial_state_def stored_a_def history_to_json_def)

text \<open>
  Claim C9, as amended. A press on a history chip sets the current result to the chip's
  item and clears the error message, and changes nothing else: the history, its contents and
  order, the uploading flag, the progress, the storage and the uploads in flight stay as
  they were, and no network call is issued. In every state the application can reach, the
  only event that changes the history is the settling of an upload that succeeds: a press
  on the upload button, the picker's answer, the start of an upload, the settling of an
  upload that fails, a press on a chip and the progress timeout leave it as it was.
\<close>

theorem select_changes_result_and_error_only:
  "run w (historyChip_press item) = w\<lparr>ui := (ui w)\<lparr>chat := Some item, error := None\<rparr>\<rparr>
   \<and> history (ui (run w (historyChip_press item))) = history (ui w)
   \<and> storage (run w (historyChip_press item)) = storage w
   \<and> fetches (historyChip_press item) = []
   \<and> world (select i item) = (world i)\<lparr>ui := (ui (world i))\<lparr>chat := Some item, error := None\<rparr>\<rparr>
   \<and> (item \<in> set (history (ui (world (app s))))
      \<longrightarrow> world (app (step s (Select item)))
            = (world (app s))\<lparr>ui := (ui (world (app s)))\<lparr>chat := Some item, error := None\<rparr>\<rparr>
          \<and> pending (step s (Select item)) = pending s)
   \<and> (reachable s
        \<and> history (ui (world (app (step s ev)))) \<noteq> history (ui (world (app s)))
      \<longrightarrow> (\<exists>k env. ev = Settle k env \<and> k < length (pending s) \<and> upload_succeeds env))"
proof -
  have a: "run w (historyChip_press item) = w\<lparr>ui := (ui w)\<lparr>chat := Some item, error := None\<rparr>\<rparr>
   \<and> history (ui (run w (historyChip_press item))) = history (ui w)
   \<and> storage (run w (historyChip_press item)) = storage w
   \<and> fetches (historyChip_press item) = []
   \<and> world (select i item) = (world i)\<lparr>ui := (ui (world i))\<lparr>chat := Some item, error := None\<rparr>\<rparr>"
    by (simp add: historyChip_press_def select_def dispatch_world)
  have b: "item \<in> set (history (ui (world (app s))))
      \<longrightarrow> world (app (step s (Select item)))
            = (world (app s))\<lparr>ui := (ui (world (app s)))\<lparr>chat := Some item, error := None\<rparr>\<rparr>
          \<and> pending (step s (Select item)) = pending s"
    by (simp add: select_world historyChip_press_def)
  have c: "reachable s
        \<and> history (ui (world (app (step s ev)))) \<noteq> history (ui (world (app s)))
      \<longrightarrow> (\<exists>k env. ev = Settle k env \<and> k < length (pending s) \<and> upload_succeeds env)"
    using step_history [of s ev] by blast
  from a b c show ?thesis by blast
qed

theorem select_changes_result_and_error_only_witness:
  "reachable (foldl step (start Map.empty) [Press, Answer 0 picker_a])
   \<and> history (ui (world (app (foldl step (start Map.empty) [Press, Answer 0 picker_a])))) = []
   \<and> history (ui (world (app (step (foldl step (start Map.empty) [Press, Answer 0 picker_a])
         (Settle 0 (env_ok 1 payload_a)))))) = [chat_a]
   \<and> upload_succeeds (env_ok 1 payload_a)
   \<and> chat_a \<in> set (history (ui (world (app (foldl step (start Map.empty) events_failed)))))
   \<and> history (ui (world (app (step (foldl step (start Map.empty) events_failed)
         (Select chat_a))))) = [chat_a]
   \<and> chat (ui (world (app (step (foldl step (start Map.empty) events_failed)
         (Select chat_a))))) = Some chat_a"
proof -
  define s1 where "s1 = foldl step (start Map.empty) [Press, Answer 0 picker_a]"
  define s2 where "s2 = foldl step (start Map.empty) events_failed"
  have r1: "reachable s1" unfolding s1_def by (rule reachable_foldl [OF start_facts(1)])
  have h0: "history (ui (world (app s1))) = []"
    unfolding s1_def begun_a by (simp add: begin_world start_facts(5) initial_state_def)
  have cb: "snd (pending s1 ! 0) = uploadFile []" "fst (pending s1 ! 0) = file_a"
    "0 < length (pending s1)"
    unfolding s1_def begun_a by simp_all
  from resume_succeeds_ui [OF env_ok_succeeds, of 1 "world (app s1)" "[]" file_a]
  have "history (ui (run (world (app s1)) (resume (uploadFile []) (env_ok 1 payload_a) file_a)))
      = [chat_a]"
    unfolding payload_of_env_ok mappedChat_a by simp
  then have h1: "history (ui (world (app (step s1 (Settle 0 (env_ok 1 payload_a)))))) = [chat_a]"
    using cb by (simp add: dispatch_world)
  from h0 h1 have ne: "history (ui (world (app (step s1 (Settle 0 (env_ok 1 payload_a))))))
      \<noteq> history (ui (world (app s1)))" by simp
  from select_changes_result_and_error_only
         [where s = s1 and ev = "Settle 0 (env_ok 1 payload_a)"] r1 ne
  have su: "upload_succeeds (env_ok 1 payload_a)" by blast
  from failed_session have m: "chat_a \<in> set (history (ui (world (app s2))))"
    and h2: "history (ui (world (app s2))) = [chat_a]"
    unfolding s2_def by simp_all
  from select_changes_result_and_error_only [where s = s2 and item = chat_a] m
  have w: "world (app (step s2 (Select chat_a)))
      = (world (app s2))\<lparr>ui := (ui (world (app s2)))\<lparr>chat := Some chat_a, error := None\<rparr>\<rparr>"
    by blast
  have sel: "history (ui (world (app (step s2 (Select chat_a))))) = [chat_a]"
    "chat (ui (world (app (step s2 (Select chat_a))))) = Some chat_a"
    unfolding w using h2 by simp_all
  from r1 h0 h1 su m sel show ?thesis unfolding s1_def s2_def by blast
qed

text \<open>
  Claim C9 as stated fails: the press changes more than the current result. After a
  successful upload and one that failed for want of a network, the error message is shown,
  and a press on the chip clears it.
\<close>

theorem select_clears_error_counterexample:
  "reachable (foldl step (start Map.empty) events_failed)
   \<and> chat_a \<in> set (history (ui (world (app (foldl step (start Map.empty) events_failed)))))
   \<and> error (ui (world (app (foldl step (start Map.empty) events_failed))))
       = Some ''Network request failed''
   \<and> error (ui (world (app (step (foldl step (start Map.empty) events_failed)
         (Select chat_a))))) = None"
proof -
  define s where "s = foldl step (start Map.empty) events_failed"
  from failed_session have r: "reachable s"
    and h: "history (ui (world (app s))) = [chat_a]"
    and e: "error (ui (world (app s))) = Some ''Network request failed''"
    unfolding s_def by blast+
  from h have m: "chat_a \<in> set (history (ui (world (app s))))" by simp
  have "error (ui (world (app (step s (Select chat_a))))) = None"
    using m by (simp add: select_world historyChip_press_def)
  with r m e show ?thesis unfolding s_def by blast
qed

section \<open>The guard against a second upload\<close>

text \<open>
  Claim C4, as amended. In every state the application can reach, while the uploading flag
  is set an upload is in flight and a press on the upload button, which is disabled, does
  nothing: the state is unchanged and no network call is issued. So long as the button is
  never pressed while the picker opened by an earlier press is still waiting for its answer,
  an upload is in flight exactly when the flag is set, at most one upload is in flight, and
  a press while it is in flight does nothing. \<open>uploadFile\<close> itself has no guard: every
  call of it issues a network call, and the picker's answer with a file starts an upload
  whatever is in flight.
\<close>

theorem press_while_uploading_is_noop:
  "(reachable s \<and> uploading (ui (world (app s)))
      \<longrightarrow> pending s \<noteq> [] \<and> step s Press = s)
   \<and> (patient s
      \<longrightarrow> (pending s \<noteq> [] \<longleftrightarrow> uploading (ui (world (app s))))
          \<and> length (pending s) \<le> 1
          \<and> (pending s \<noteq> [] \<longrightarrow> step s Press = s \<and> pending (step s Press) = pending s))
   \<and> fetches (uploadFile h env f) = [f]
   \<and> (k < length (picking s) \<and> granted p \<and> picked_file p = Some f
      \<longrightarrow> pending (step s (Answer k p)) = pending s @ [(f, picking s ! k)]
          \<and> fetches (uploadFile_begin f) = [f])"
proof -
  have c: "fetches (uploadFile h env f) = [f]" by (rule fetches_uploadFile)
  have d: "k < length (picking s) \<and> granted p \<and> picked_file p = Some f
      \<longrightarrow> pending (step s (Answer k p)) = pending s @ [(f, picking s ! k)]
          \<and> fetches (uploadFile_begin f) = [f]"
    by (simp add: uploadFile_begin_def simulateProgress_def)
  have a: "reachable s \<and> uploading (ui (world (app s)))
      \<longrightarrow> pending s \<noteq> [] \<and> step s Press = s"
    using reachable_uploading_pending [of s] by simp
  have b: "patient s
      \<longrightarrow> (pending s \<noteq> [] \<longleftrightarrow> uploading (ui (world (app s))))
          \<and> length (pending s) \<le> 1
          \<and> (pending s \<noteq> [] \<longrightarrow> step s Press = s \<and> pending (step s Press) = pending s)"
  proof
    assume p: "patient s"
    from patient_single [OF p] have i: "length (picking s) + length (pending s) \<le> 1"
      and u: "uploading (ui (world (app s))) \<longleftrightarrow> pending s \<noteq> []" by auto
    from i have l: "length (pending s) \<le> 1" by simp
    from u have n: "pending s \<noteq> [] \<longrightarrow> step s Press = s \<and> pending (step s Press) = pending s"
      by simp
    from u l n show "(pending s \<noteq> [] \<longleftrightarrow> uploading (ui (world (app s))))
          \<and> length (pending s) \<le> 1
          \<and> (pending s \<noteq> [] \<longrightarrow> step s Press = s \<and> pending (step s Press) = pending s)"
      by blast
  qed
  from a b c d show ?thesis by blast
qed

theorem press_while_uploading_is_noop_witness:
  "patient (foldl step (start Map.empty) [Press, Answer 0 picker_a])
   \<and> uploading (ui (world (app (foldl step (start Map.empty) [Press, Answer 0 picker_a]))))
   \<and> map fst (pending (foldl step (start Map.empty) [Press, Answer 0 picker_a])) = [file_a]
   \<and> step (foldl step (start Map.empty) [Press, Answer 0 picker_a]) Press
       = foldl step (start Map.empty) [Press, Answer 0 picker_a]"
proof -
  define s1 where "s1 = foldl step (start Map.empty) [Press, Answer 0 picker_a]"
  have "patient (step (step (start Map.empty) Press) (Answer 0 picker_a))"
    by (rule patient_answer [OF patient_press [OF patient_start start_facts(3)]])
  then have p: "patient s1" by (simp add: s1_def)
  have u: "uploading (ui (world (app s1)))"
    unfolding s1_def begun_a by (simp add: begin_world)
  have f: "map fst (pending s1) = [file_a]"
    unfolding s1_def begun_a by simp
  from press_while_uploading_is_noop [of s1] p u have "step s1 Press = s1" by blast
  with p u f show ?thesis unfolding s1_def by blast
qed

text \<open>
  Claim C4 as stated fails: \<open>uploadFile\<close> has no guard of its own. After two presses made
  before the first picker has answered, the first answer starts an upload, and the second
  answer calls \<open>uploadFile\<close> while that upload is in flight: a second network call is
  issued. When the first of the two then settles, the flag is cleared, and the button is
  enabled, while the second is still in flight.
\<close>

theorem second_upload_while_in_flight_counterexample:
  "uploading (ui (world (app (foldl step (start Map.empty) [Press, Press, Answer 0 picker_a]))))
   \<and> map fst (pending (foldl step (start Map.empty) [Press, Press, Answer 0 picker_a]))
       = [file_a]
   \<and> map fst (pending (foldl step (start Map.empty) events_overlap)) = [file_a, file_a]
   \<and> uploading (ui (world (app (foldl step (start Map.empty)
         (events_overlap @ [Settle 0 (env_ok 1 payload_a)]))))) = False
   \<and> map fst (pending (foldl step (start Map.empty)
         (events_overlap @ [Settle 0 (env_ok 1 payload_a)]))) = [file_a]"
  by (simp add: events_overlap_def start_def mount_eq initial_state_def dispatch_first
        render_first without_def picked_file_a granted_a begin_world resume_uploading)

end
